theory Spec2Isabelle
  imports Main
begin

section \<open>Python string operations used by the guards\<close>

text \<open>
  A Python \<open>str\<close> is modelled as a \<open>string\<close> whose characters are the code points below
  256. On these, \<open>lower\<close> is Python's: it maps \<open>A\<close>..\<open>Z\<close> to \<open>a\<close>..\<open>z\<close> and the capital
  letters \<open>0xC0\<close>..\<open>0xDE\<close> (all but the sign \<open>0xD7\<close>) to the letters 32 places further, and
  leaves every other character alone. The whitespace of \<open>strip\<close> and \<open>split\<close> is that of
  \<open>str.isspace\<close>: the codes 9 to 13, 28 to 32, \<open>0x85\<close> and \<open>0xA0\<close>.
\<close>

definition lower_char :: "char \<Rightarrow> char" where
  "lower_char c =
     (case map_of
             (zip (''ABCDEFGHIJKLMNOPQRSTUVWXYZ'' @
                   [CHR 0xC0, CHR 0xC1, CHR 0xC2, CHR 0xC3, CHR 0xC4, CHR 0xC5, CHR 0xC6, CHR 0xC7,
                    CHR 0xC8, CHR 0xC9, CHR 0xCA, CHR 0xCB, CHR 0xCC, CHR 0xCD, CHR 0xCE, CHR 0xCF,
                    CHR 0xD0, CHR 0xD1, CHR 0xD2, CHR 0xD3, CHR 0xD4, CHR 0xD5, CHR 0xD6, CHR 0xD8,
                    CHR 0xD9, CHR 0xDA, CHR 0xDB, CHR 0xDC, CHR 0xDD, CHR 0xDE])
                  (''abcdefghijklmnopqrstuvwxyz'' @
                   [CHR 0xE0, CHR 0xE1, CHR 0xE2, CHR 0xE3, CHR 0xE4, CHR 0xE5, CHR 0xE6, CHR 0xE7,
                    CHR 0xE8, CHR 0xE9, CHR 0xEA, CHR 0xEB, CHR 0xEC, CHR 0xED, CHR 0xEE, CHR 0xEF,
                    CHR 0xF0, CHR 0xF1, CHR 0xF2, CHR 0xF3, CHR 0xF4, CHR 0xF5, CHR 0xF6, CHR 0xF8,
                    CHR 0xF9, CHR 0xFA, CHR 0xFB, CHR 0xFC, CHR 0xFD, CHR 0xFE])) c of
        Some d \<Rightarrow> d
      | None \<Rightarrow> c)"

definition lower :: "string \<Rightarrow> string" where
  "lower s = map lower_char s"

definition isspace :: "char \<Rightarrow> bool" where
  "isspace c =
     (c \<in> set [CHR 0x09, CHR 0x0A, CHR 0x0B, CHR 0x0C, CHR 0x0D,
                CHR 0x1C, CHR 0x1D, CHR 0x1E, CHR 0x1F, CHR 0x20,
                CHR 0x85, CHR 0xA0])"

definition strip :: "string \<Rightarrow> string" where
  "strip s = rev (dropWhile isspace (rev (dropWhile isspace s)))"

text \<open>\<open>s.startswith(p)\<close>\<close>

fun startswith :: "string \<Rightarrow> string \<Rightarrow> bool" where
  "startswith s [] = True"
| "startswith [] (p # ps) = False"
| "startswith (c # cs) (p # ps) = (c = p \<and> startswith cs ps)"

text \<open>\<open>x in s\<close> for two strings: \<open>x\<close> occurs in \<open>s\<close> as a contiguous substring.\<close>

fun contains :: "string \<Rightarrow> string \<Rightarrow> bool" where
  "contains [] x = (x = [])"
| "contains (c # cs) x = (startswith (c # cs) x \<or> contains cs x)"

text \<open>\<open>s.split()\<close>: the maximal runs of non-whitespace characters, in order.\<close>

fun split_aux :: "string \<Rightarrow> string \<Rightarrow> string list" where
  "split_aux cur [] = (if cur = [] then [] else [cur])"
| "split_aux cur (c # cs) =
     (if isspace c then (if cur = [] then split_aux [] cs else cur # split_aux [] cs)
      else split_aux (cur @ [c]) cs)"

definition split :: "string \<Rightarrow> string list" where
  "split s = split_aux [] s"

section \<open>Exceptions\<close>

text \<open>
  The constructors keep apart the exceptions the program raises itself (\<open>ValueError\<close> with
  its message, \<open>HTTPException\<close> with status, detail and headers), the ones Python raises for
  the program (\<open>IntError\<close> is the \<open>ValueError\<close> of \<open>int()\<close> on a malformed literal,
  \<open>IndexError\<close>, \<open>AttributeError\<close>), and the ones that come out of a library call
  (\<open>LibraryError\<close>, with the library's message).
\<close>

datatype exn =
    ValueError string
  | HTTPException nat string "(string \<times> string) list"
  | IntError string
  | IndexError
  | AttributeError
  | LibraryError string

section \<open>The statement guards\<close>

definition blocked :: "string list" where
  "blocked = [''drop'', ''alter'', ''truncate'', ''create'']"

text \<open>\<open>any(x in query.lower() for x in blocked)\<close>\<close>

definition has_blocked :: "string \<Rightarrow> bool" where
  "has_blocked query = list_ex (\<lambda>x. contains (lower query) x) blocked"

text \<open>
  The two checks at the head of \<open>run_sql\<close> in \<open>mcp_server.py\<close>, in the order of the source;
  \<open>None\<close> when neither raises.
\<close>

definition run_sql_guard :: "string \<Rightarrow> exn option" where
  "run_sql_guard query =
     (if has_blocked query then Some (ValueError ''DDL commands not allowed.'')
      else if startswith (lower (strip query)) ''select''
           then Some (ValueError ''Use run_select() for SELECT queries.'')
      else None)"

text \<open>The check at the head of \<open>run_select\<close> in \<open>mcp_server.py\<close>.\<close>

definition run_select_guard :: "string \<Rightarrow> exn option" where
  "run_select_guard query =
     (if \<not> contains (lower (strip query)) ''select''
      then Some (ValueError ''Only SELECT queries allowed for data retrieval.'')
      else None)"

section \<open>The process state and the libraries it calls\<close>

text \<open>
  \<open>DB_CONFIG\<close> of \<open>initialize_db_pool\<close>: what \<open>os.getenv\<close> returned for each key (\<open>None\<close>
  when the variable is not set) and the port as an integer.
\<close>

record db_config =
  host :: "string option"
  port :: int
  database :: "string option"
  user :: "string option"
  password :: "string option"

type_synonym pool = nat
type_synonym conn = nat

datatype pg_value = PgNull | PgInt int | PgText string | PgBool bool

text \<open>An asyncpg \<open>Record\<close>: the columns of one row, in order, each with its name.\<close>

type_synonym pg_record = "(string \<times> pg_value) list"

text \<open>
  Every call that leaves the program is written to the trace, in order: the creation of a
  pool with its outcome, the checkout and return of a connection, the statements sent to
  the database with their arguments, the construction of the HTTP application, the start of
  the HTTP server and the hand-over of a request to the MCP transport; for \<open>main.py\<close> the
  psycopg2 calls (connect, execute on a cursor, fetchall, commit, rollback).
\<close>

datatype event =
    CreatePool db_config "pool option"
  | Acquire pool
  | Release pool conn
  | Fetch conn string "string list"
  | Execute conn string
  | GetApp int
  | Serve int
  | HandleRequest string
  | Connect db_config "conn option"
  | CursorExecute conn string
  | Fetchall conn
  | Commit conn
  | Rollback conn

text \<open>
  The libraries and the environment, as parameters of the model: the environment variables,
  \<open>int()\<close> on a string, asyncpg (\<open>create_pool\<close>, \<open>pool.acquire()\<close> as a context manager,
  \<open>conn.fetch\<close>, \<open>conn.execute\<close>), the transport with its application (\<open>get_app\<close> stands for the constructor of
  the transport, \<open>transport.get_app()\<close> and the registration of the two routes,
  \<open>handle_request\<close> for \<open>transport.handle_request\<close>), uvicorn (\<open>serve\<close> stands for
  \<open>Config\<close>, \<open>Server\<close> and \<open>server.serve()\<close>) and FastAPI's \<open>HTTPBearer\<close>, which turns the
  \<open>Authorization\<close> header of a request, if any, into the presented token or raises. A
  library call reads and changes the world outside the process, of type \<open>'w\<close>, and either
  returns a value or raises with a message (\<open>Inl\<close>).
\<close>

record 'w backend =
  getenv :: "string \<Rightarrow> string option"
  int_of_str :: "string \<Rightarrow> string + int"
  create_pool :: "db_config \<Rightarrow> 'w \<Rightarrow> (string + pool) \<times> 'w"
  acquire :: "pool \<Rightarrow> 'w \<Rightarrow> (string + conn) \<times> 'w"
  release :: "pool \<Rightarrow> conn \<Rightarrow> 'w \<Rightarrow> (string + unit) \<times> 'w"
  fetch :: "conn \<Rightarrow> string \<Rightarrow> string list \<Rightarrow> 'w \<Rightarrow> (string + pg_record list) \<times> 'w"
  execute :: "conn \<Rightarrow> string \<Rightarrow> 'w \<Rightarrow> (string + string) \<times> 'w"
  get_app :: "int \<Rightarrow> 'w \<Rightarrow> (string + unit) \<times> 'w"
  serve :: "int \<Rightarrow> 'w \<Rightarrow> (string + unit) \<times> 'w"
  http_bearer :: "string option \<Rightarrow> exn + string"
  handle_request :: "string \<Rightarrow> 'w \<Rightarrow> (string + string) \<times> 'w"

text \<open>
  The state of the process: the module-level variable \<open>db_pool\<close>, the world outside, the
  trace of library calls and the lines printed.
\<close>

record 'w state =
  db_pool :: "pool option"
  world :: 'w
  trace :: "event list"
  stdout :: "string list"

type_synonym ('w, 'a) io = "'w state \<Rightarrow> (exn + 'a) \<times> 'w state"

definition lib_result :: "string + 'a \<Rightarrow> exn + 'a" where
  "lib_result r = (case r of Inl m \<Rightarrow> Inl (LibraryError m) | Inr a \<Rightarrow> Inr a)"

text \<open>\<open>int(os.getenv(name, dflt))\<close>: the default is an integer already.\<close>

definition int_env :: "'w backend \<Rightarrow> string \<Rightarrow> int \<Rightarrow> exn + int" where
  "int_env B name dflt =
     (case getenv B name of
        None \<Rightarrow> Inr dflt
      | Some v \<Rightarrow> (case int_of_str B v of Inl m \<Rightarrow> Inl (IntError m) | Inr n \<Rightarrow> Inr n))"

section \<open>mcp_server.py\<close>

definition initialize_db_pool :: "'w backend \<Rightarrow> ('w, unit) io" where
  "initialize_db_pool B s =
     (if db_pool s \<noteq> None then (Inr (), s)
      else
        (case int_env B ''DB_PORT'' 5432 of
           Inl e \<Rightarrow> (Inl e, s)
         | Inr p \<Rightarrow>
             (let DB_CONFIG = \<lparr>host = getenv B ''DB_HOST'', port = p,
                                database = getenv B ''DB_NAME'', user = getenv B ''DB_USER'',
                                password = getenv B ''DB_PASSWORD''\<rparr>
              in case create_pool B DB_CONFIG (world s) of
                   (Inr pl, w) \<Rightarrow>
                     (Inr (),
                      s\<lparr>db_pool := Some pl, world := w,
                        trace := trace s @ [CreatePool DB_CONFIG (Some pl)],
                        stdout := stdout s @
                          [''INFO: PostgreSQL Connection Pool initialized successfully.'']\<rparr>)
                 | (Inl m, w) \<Rightarrow>
                     (Inl (LibraryError m),
                      s\<lparr>world := w,
                        trace := trace s @ [CreatePool DB_CONFIG None],
                        stdout := stdout s @
                          [''ERROR: Failed to connect to PostgreSQL: '' @ m]\<rparr>))))"




text \<open>
  \<open>async with db_pool.acquire() as conn: body\<close>. The connection goes back to the pool when
  the body returns and when it raises; an exception of the return replaces the body's
  outcome. \<open>db_pool.acquire\<close> on \<open>None\<close> is an \<open>AttributeError\<close>.
\<close>

definition with_acquire :: "'w backend \<Rightarrow> (conn \<Rightarrow> ('w, 'a) io) \<Rightarrow> ('w, 'a) io" where
  "with_acquire B body s =
     (case db_pool s of
        None \<Rightarrow> (Inl AttributeError, s)
      | Some pl \<Rightarrow>
          (case acquire B pl (world s) of
             (Inl m, w) \<Rightarrow>
               (Inl (LibraryError m), s\<lparr>world := w, trace := trace s @ [Acquire pl]\<rparr>)
           | (Inr c, w) \<Rightarrow>
               (case body c (s\<lparr>world := w, trace := trace s @ [Acquire pl]\<rparr>) of
                  (r, s1) \<Rightarrow>
                    (case release B pl c (world s1) of
                       (Inl m, w1) \<Rightarrow>
                         (Inl (LibraryError m),
                          s1\<lparr>world := w1, trace := trace s1 @ [Release pl c]\<rparr>)
                     | (Inr u, w1) \<Rightarrow>
                         (r, s1\<lparr>world := w1, trace := trace s1 @ [Release pl c]\<rparr>)))))"

text \<open>\<open>await conn.fetch(query, *args)\<close>\<close>

definition conn_fetch :: "'w backend \<Rightarrow> conn \<Rightarrow> string \<Rightarrow> string list \<Rightarrow> ('w, pg_record list) io" where
  "conn_fetch B c query args s =
     (case fetch B c query args (world s) of
        (r, w) \<Rightarrow> (lib_result r, s\<lparr>world := w, trace := trace s @ [Fetch c query args]\<rparr>))"

text \<open>\<open>await conn.execute(query)\<close>\<close>

definition conn_execute :: "'w backend \<Rightarrow> conn \<Rightarrow> string \<Rightarrow> ('w, string) io" where
  "conn_execute B c query s =
     (case execute B c query (world s) of
        (r, w) \<Rightarrow> (lib_result r, s\<lparr>world := w, trace := trace s @ [Execute c query]\<rparr>))"

text \<open>
  \<open>dict(r)\<close> of a record: the mapping from column name to value; of two columns with one
  name the later one is kept.
\<close>

definition dict_of :: "pg_record \<Rightarrow> (string \<rightharpoonup> pg_value)" where
  "dict_of r = map_of (rev r)"







definition run_select :: "'w backend \<Rightarrow> string \<Rightarrow> ('w, (string \<rightharpoonup> pg_value) list) io" where
  "run_select B query s =
     (case initialize_db_pool B s of
        (Inl e, s1) \<Rightarrow> (Inl e, s1)
      | (Inr u, s1) \<Rightarrow>
          (case run_select_guard query of
             Some e \<Rightarrow> (Inl e, s1)
           | None \<Rightarrow>
               with_acquire B
                 (\<lambda>c s2. case conn_fetch B c query [] s2 of
                            (Inl e, s3) \<Rightarrow> (Inl e, s3)
                          | (Inr records, s3) \<Rightarrow> (Inr (map dict_of records), s3)) s1))"

text \<open>\<open>result.split()[-1]\<close>\<close>

definition last_word :: "string \<Rightarrow> exn + string" where
  "last_word result = (case split result of [] \<Rightarrow> Inl IndexError | w # ws \<Rightarrow> Inr (last (w # ws)))"

definition run_sql :: "'w backend \<Rightarrow> string \<Rightarrow> ('w, string) io" where
  "run_sql B query s =
     (case initialize_db_pool B s of
        (Inl e, s1) \<Rightarrow> (Inl e, s1)
      | (Inr u, s1) \<Rightarrow>
          (case run_sql_guard query of
             Some e \<Rightarrow> (Inl e, s1)
           | None \<Rightarrow>
               with_acquire B
                 (\<lambda>c s2. case conn_execute B c query s2 of
                            (Inl e, s3) \<Rightarrow> (Inl e, s3)
                          | (Inr result, s3) \<Rightarrow>
                              (case last_word result of
                                 Inl e \<Rightarrow> (Inl e, s3)
                               | Inr rows_affected \<Rightarrow>
                                   (Inr (''Executed successfully. Rows affected: '' @ rows_affected),
                                    s3))) s1))"

definition preview_table :: "'w backend \<Rightarrow> string \<Rightarrow> ('w, (string \<rightharpoonup> pg_value) list) io" where
  "preview_table B table s =
     (case initialize_db_pool B s of
        (Inl e, s1) \<Rightarrow> (Inl e, s1)
      | (Inr u, s1) \<Rightarrow>
          with_acquire B
            (\<lambda>c s2. case conn_fetch B c (''SELECT * FROM '' @ table @ '' LIMIT 10'') [] s2 of
                       (Inl e, s3) \<Rightarrow> (Inl e, s3)
                     | (Inr records, s3) \<Rightarrow> (Inr (map dict_of records), s3)) s1)"

section \<open>app.py\<close>

definition check_auth :: "'w backend \<Rightarrow> string \<Rightarrow> ('w, bool) io" where
  "check_auth B credentials s =
     (let expected_key = getenv B ''MCP_API_KEY'' in
      if expected_key = None \<or> expected_key = Some []
      then (Inl (HTTPException 500 ''Server Misconfiguration: Authentication key missing.'' []),
            s\<lparr>stdout := stdout s @
                 [''SECURITY ERROR: MCP_API_KEY is not set in environment variables!'']\<rparr>)
      else if Some credentials \<noteq> expected_key
      then (Inl (HTTPException 401 ''Unauthorized access. Invalid MCP_API_KEY.''
                   [(''WWW-Authenticate'', ''Bearer'')]), s)
      else (Inr True, s))"

text \<open>
  A request to \<open>/mcp\<close>: the dependency \<open>check_auth\<close>, itself depending on \<open>security\<close>, runs
  before the body of \<open>protected_mcp_endpoint\<close>, which hands the request to the transport.
\<close>

definition protected_mcp_endpoint :: "'w backend \<Rightarrow> string option \<Rightarrow> string \<Rightarrow> ('w, string) io" where
  "protected_mcp_endpoint B authorization request s =
     (case http_bearer B authorization of
        Inl e \<Rightarrow> (Inl e, s)
      | Inr credentials \<Rightarrow>
          (case check_auth B credentials s of
             (Inl e, s1) \<Rightarrow> (Inl e, s1)
           | (Inr ok, s1) \<Rightarrow>
               (case handle_request B request (world s1) of
                  (r, w) \<Rightarrow>
                    (lib_result r,
                     s1\<lparr>world := w, trace := trace s1 @ [HandleRequest request]\<rparr>))))"

text \<open>\<open>str\<close> of an integer, for the f-strings.\<close>

function str_nat :: "nat \<Rightarrow> string" where
  "str_nat n =
     (if n < 10 then [''0123456789'' ! n]
      else str_nat (n div 10) @ [''0123456789'' ! (n mod 10)])"
  by pat_completeness auto
termination
  by (relation "measure (\<lambda>n. n)") auto

definition str_int :: "int \<Rightarrow> string" where
  "str_int i = (if i < 0 then ''-'' @ str_nat (nat (- i)) else str_nat (nat i))"

definition start_server :: "'w backend \<Rightarrow> ('w, unit) io" where
  "start_server B s =
     (case initialize_db_pool B s of
        (Inl e, s1) \<Rightarrow> (Inl e, s1)
      | (Inr u, s1) \<Rightarrow>
          (case int_env B ''PORT'' 8080 of
             Inl e \<Rightarrow> (Inl e, s1)
           | Inr p \<Rightarrow>
               (case get_app B p (world s1) of
                  (Inl m, w) \<Rightarrow>
                    (Inl (LibraryError m), s1\<lparr>world := w, trace := trace s1 @ [GetApp p]\<rparr>)
                | (Inr app, w) \<Rightarrow>
                    (let s2 = s1\<lparr>world := w, trace := trace s1 @ [GetApp p],
                                 stdout := stdout s1 @
                                   [''INFO: Starting secured Render-Postgres-Assistant on port ''
                                    @ str_int p @ ''...'']\<rparr>
                     in case serve B p (world s2) of
                          (r, w1) \<Rightarrow>
                            (lib_result r,
                             s2\<lparr>world := w1, trace := trace s2 @ [Serve p]\<rparr>)))))"

section \<open>main.py\<close>

text \<open>
  psycopg2 as a parameter: \<open>connect\<close>, \<open>cur.execute\<close> on a cursor of the connection,
  \<open>cur.fetchall()\<close>, \<open>cur.rowcount\<close>, and the commit or rollback with which the connection
  leaves its \<open>with\<close> block.
\<close>

record 'w psycopg =
  connect :: "db_config \<Rightarrow> 'w \<Rightarrow> (string + conn) \<times> 'w"
  cursor_execute :: "conn \<Rightarrow> string \<Rightarrow> 'w \<Rightarrow> (string + unit) \<times> 'w"
  fetchall :: "conn \<Rightarrow> 'w \<Rightarrow> (string + pg_record list) \<times> 'w"
  rowcount :: "conn \<Rightarrow> 'w \<Rightarrow> int"
  commit :: "conn \<Rightarrow> 'w \<Rightarrow> (string + unit) \<times> 'w"
  rollback :: "conn \<Rightarrow> 'w \<Rightarrow> (string + unit) \<times> 'w"

text \<open>
  \<open>with get_conn() as conn: body\<close>, where \<open>get_conn\<close> is \<open>psycopg2.connect(**DB_CONFIG)\<close>:
  the block commits when the body returns and rolls back when it raises.
\<close>

definition with_conn :: "'w psycopg \<Rightarrow> db_config \<Rightarrow> (conn \<Rightarrow> ('w, 'a) io) \<Rightarrow> ('w, 'a) io" where
  "with_conn D cfg body s =
     (case connect D cfg (world s) of
        (Inl m, w) \<Rightarrow>
          (Inl (LibraryError m), s\<lparr>world := w, trace := trace s @ [Connect cfg None]\<rparr>)
      | (Inr c, w) \<Rightarrow>
          (case body c (s\<lparr>world := w, trace := trace s @ [Connect cfg (Some c)]\<rparr>) of
             (Inr a, s1) \<Rightarrow>
               (case commit D c (world s1) of
                  (r, w1) \<Rightarrow>
                    ((case r of Inl m \<Rightarrow> Inl (LibraryError m) | Inr u \<Rightarrow> Inr a),
                     s1\<lparr>world := w1, trace := trace s1 @ [Commit c]\<rparr>))
           | (Inl e, s1) \<Rightarrow>
               (case rollback D c (world s1) of
                  (r, w1) \<Rightarrow>
                    ((case r of Inl m \<Rightarrow> Inl (LibraryError m) | Inr u \<Rightarrow> Inl e),
                     s1\<lparr>world := w1, trace := trace s1 @ [Rollback c]\<rparr>))))"

definition cur_execute :: "'w psycopg \<Rightarrow> conn \<Rightarrow> string \<Rightarrow> ('w, unit) io" where
  "cur_execute D c query s =
     (case cursor_execute D c query (world s) of
        (r, w) \<Rightarrow> (lib_result r, s\<lparr>world := w, trace := trace s @ [CursorExecute c query]\<rparr>))"

definition cur_fetchall :: "'w psycopg \<Rightarrow> conn \<Rightarrow> ('w, pg_record list) io" where
  "cur_fetchall D c s =
     (case fetchall D c (world s) of
        (r, w) \<Rightarrow> (lib_result r, s\<lparr>world := w, trace := trace s @ [Fetchall c]\<rparr>))"

definition conn_commit :: "'w psycopg \<Rightarrow> conn \<Rightarrow> ('w, unit) io" where
  "conn_commit D c s =
     (case commit D c (world s) of
        (r, w) \<Rightarrow> (lib_result r, s\<lparr>world := w, trace := trace s @ [Commit c]\<rparr>))"

text \<open>\<open>cur.execute(query); return cur.fetchall()\<close> on a \<open>RealDictCursor\<close>\<close>

definition execute_fetchall ::
  "'w psycopg \<Rightarrow> string \<Rightarrow> conn \<Rightarrow> ('w, (string \<rightharpoonup> pg_value) list) io" where
  "execute_fetchall D query c s =
     (case cur_execute D c query s of
        (Inl e, s1) \<Rightarrow> (Inl e, s1)
      | (Inr u, s1) \<Rightarrow>
          (case cur_fetchall D c s1 of
             (Inl e, s2) \<Rightarrow> (Inl e, s2)
           | (Inr rows, s2) \<Rightarrow> (Inr (map dict_of rows), s2)))"

definition main_run_select ::
  "'w psycopg \<Rightarrow> db_config \<Rightarrow> string \<Rightarrow> ('w, (string \<rightharpoonup> pg_value) list) io" where
  "main_run_select D cfg query s =
     (if \<not> contains (lower query) ''select''
      then (Inl (ValueError ''Only SELECT queries allowed.''), s)
      else with_conn D cfg (execute_fetchall D query) s)"

definition main_run_sql :: "'w psycopg \<Rightarrow> db_config \<Rightarrow> string \<Rightarrow> ('w, string) io" where
  "main_run_sql D cfg query s =
     (if has_blocked query
      then (Inl (ValueError ''DDL commands not allowed.''), s)
      else if startswith (strip (lower query)) ''select''
      then (Inl (ValueError ''Use run_select() for SELECT.''), s)
      else
        with_conn D cfg
          (\<lambda>c s1. case cur_execute D c query s1 of
                     (Inl e, s2) \<Rightarrow> (Inl e, s2)
                   | (Inr u, s2) \<Rightarrow>
                       (case conn_commit D c s2 of
                          (Inl e, s3) \<Rightarrow> (Inl e, s3)
                        | (Inr u1, s3) \<Rightarrow>
                            (Inr (''Executed successfully. Rows affected: ''
                                  @ str_int (rowcount D c (world s3))), s3))) s)"

definition main_preview_table ::
  "'w psycopg \<Rightarrow> db_config \<Rightarrow> string \<Rightarrow> ('w, (string \<rightharpoonup> pg_value) list) io" where
  "main_preview_table D cfg table s =
     with_conn D cfg (execute_fetchall D (''SELECT * FROM '' @ table @ '' LIMIT 10'')) s"

section \<open>Reading the trace\<close>


text \<open>
  The events in which a connection is taken or a statement reaches the database.
\<close>

fun is_db_work :: "event \<Rightarrow> bool" where
  "is_db_work (Acquire pl) = True"
| "is_db_work (Release pl c) = True"
| "is_db_work (Fetch c q args) = True"
| "is_db_work (Execute c q) = True"
| "is_db_work (Connect cfg r) = True"
| "is_db_work (CursorExecute c q) = True"
| "is_db_work (Fetchall c) = True"
| "is_db_work (Commit c) = True"
| "is_db_work (Rollback c) = True"
| "is_db_work e = False"

text \<open>The statements sent to the database, in order, each with its bound arguments.\<close>

fun statements :: "event list \<Rightarrow> (string \<times> string list) list" where
  "statements [] = []"
| "statements (Fetch c q args # es) = (q, args) # statements es"
| "statements (Execute c q # es) = (q, []) # statements es"
| "statements (CursorExecute c q # es) = (q, []) # statements es"
| "statements (e # es) = statements es"

section \<open>Sequences of operations\<close>






text \<open>The events of the HTTP server: the application is built, the server serves.\<close>

fun is_serve :: "event \<Rightarrow> bool" where
  "is_serve (GetApp p) = True"
| "is_serve (Serve p) = True"
| "is_serve e = False"

section \<open>Concrete worlds\<close>

text \<open>The process as the module is loaded: \<open>db_pool = None\<close>, nothing called, nothing printed.\<close>

definition start_state :: "unit state" where
  "start_state = \<lparr>db_pool = None, world = (), trace = [], stdout = []\<rparr>"

text \<open>A deployment with no variable set and a database that refuses every connection.\<close>

definition unreachable_db :: "unit backend" where
  "unreachable_db =
     \<lparr>getenv = (\<lambda>k. None),
      int_of_str = (\<lambda>v. Inl ''invalid literal for int()''),
      create_pool = (\<lambda>cfg w. (Inl ''connection refused'', w)),
      acquire = (\<lambda>pl w. (Inl ''connection refused'', w)),
      release = (\<lambda>pl c w. (Inr (), w)),
      fetch = (\<lambda>c q args w. (Inl ''connection refused'', w)),
      execute = (\<lambda>c q w. (Inl ''connection refused'', w)),
      get_app = (\<lambda>p w. (Inr (), w)),
      serve = (\<lambda>p w. (Inr (), w)),
      http_bearer = (\<lambda>h. case h of None \<Rightarrow> Inl (HTTPException 403 ''Not authenticated'' [])
                                 | Some v \<Rightarrow> Inr v),
      handle_request = (\<lambda>r w. (Inr ''{}'', w))\<rparr>"

text \<open>
  A deployment whose secret is \<open>s3cret\<close> and whose database accepts every statement: a query
  returns the one row \<open>x = 1\<close>, a command the status \<open>UPDATE 1\<close>.
\<close>

definition accepting_db :: "unit backend" where
  "accepting_db =
     \<lparr>getenv = (\<lambda>k. if k = ''MCP_API_KEY'' then Some ''s3cret'' else None),
      int_of_str = (\<lambda>v. Inl ''invalid literal for int()''),
      create_pool = (\<lambda>cfg w. (Inr 1, w)),
      acquire = (\<lambda>pl w. (Inr 7, w)),
      release = (\<lambda>pl c w. (Inr (), w)),
      fetch = (\<lambda>c q args w. (Inr [[(''x'', PgInt 1)]], w)),
      execute = (\<lambda>c q w. (Inr ''UPDATE 1'', w)),
      get_app = (\<lambda>p w. (Inr (), w)),
      serve = (\<lambda>p w. (Inr (), w)),
      http_bearer = (\<lambda>h. case h of None \<Rightarrow> Inl (HTTPException 403 ''Not authenticated'' [])
                                 | Some v \<Rightarrow> Inr v),
      handle_request = (\<lambda>r w. (Inr ''{}'', w))\<rparr>"

definition accepting_pg :: "unit psycopg" where
  "accepting_pg =
     \<lparr>connect = (\<lambda>cfg w. (Inr 7, w)),
      cursor_execute = (\<lambda>c q w. (Inr (), w)),
      fetchall = (\<lambda>c w. (Inr [[(''x'', PgInt 1)]], w)),
      rowcount = (\<lambda>c w. 1),
      commit = (\<lambda>c w. (Inr (), w)),
      rollback = (\<lambda>c w. (Inr (), w))\<rparr>"

definition local_config :: db_config where
  "local_config =
     \<lparr>host = Some ''localhost'', port = 5432, database = None, user = None, password = None\<rparr>"



text \<open>
  The statement of the design notes that both entry points admit:
  \<open>UPDATE t SET note = 'please select carefully'\<close>.
\<close>

definition overlap_example :: string where
  "overlap_example = ''UPDATE t SET note = 'please select carefully'' @ [CHR 0x27]"

section \<open>Properties of the string operations\<close>

lemma startswith_iff: "startswith s p \<longleftrightarrow> (\<exists>t. s = p @ t)"
  by (induction s p rule: startswith.induct) auto

lemma contains_iff: "contains s x \<longleftrightarrow> (\<exists>p t. s = p @ x @ t)"
proof (induction s)
  case Nil
  then show ?case by auto
next
  case (Cons c cs)
  have "(\<exists>p t. c # cs = p @ x @ t) \<longleftrightarrow> (\<exists>t. c # cs = x @ t) \<or> (\<exists>p t. cs = p @ x @ t)"
  proof
    assume "\<exists>p t. c # cs = p @ x @ t"
    then obtain p t where pt: "c # cs = p @ x @ t" by blast
    show "(\<exists>t. c # cs = x @ t) \<or> (\<exists>p t. cs = p @ x @ t)"
    proof (cases p)
      case Nil
      with pt show ?thesis by auto
    next
      case (Cons a p')
      with pt have "cs = p' @ x @ t" by simp
      then show ?thesis by blast
    qed
  next
    assume "(\<exists>t. c # cs = x @ t) \<or> (\<exists>p t. cs = p @ x @ t)"
    then show "\<exists>p t. c # cs = p @ x @ t"
    proof
      assume "\<exists>t. c # cs = x @ t"
      then obtain t where "c # cs = [] @ x @ t" by auto
      then show ?thesis by blast
    next
      assume "\<exists>p t. cs = p @ x @ t"
      then obtain p t where "c # cs = (c # p) @ x @ t" by auto
      then show ?thesis by blast
    qed
  qed
  with Cons show ?case by (simp add: startswith_iff)
qed

lemma isspace_lower_char: "isspace (lower_char c) = isspace c"
  by (simp add: lower_char_def isspace_def)

lemma strip_lower: "strip (lower s) = lower (strip s)"
  by (simp add: strip_def lower_def dropWhile_map rev_map comp_def isspace_lower_char)

lemma dropWhile_keeps:
  assumes "x \<noteq> []" and "\<not> P (hd x)"
  shows "\<exists>p'. dropWhile P (p @ x @ t) = p' @ x @ t"
proof (induction p)
  case Nil
  from assms have "dropWhile P (x @ t) = x @ t" by (cases x) auto
  then show ?case by auto
next
  case (Cons a p)
  then obtain p' where "dropWhile P (p @ x @ t) = p' @ x @ t" by blast
  then show ?case by (cases "P a") (auto intro: exI [of _ "a # p"])
qed

lemma contains_strip:
  assumes "x \<noteq> []" and "\<not> isspace (hd x)" and "\<not> isspace (last x)"
  shows "contains (strip s) x = contains s x"
proof
  assume "contains (strip s) x"
  then obtain p t where "strip s = p @ x @ t" by (auto simp: contains_iff)
  moreover have "s = takeWhile isspace s @ strip s @ rev (takeWhile isspace (rev (dropWhile isspace s)))"
  proof -
    have "dropWhile isspace s = strip s @ rev (takeWhile isspace (rev (dropWhile isspace s)))"
      unfolding strip_def
      by (metis rev_append rev_rev_ident takeWhile_dropWhile_id)
    then show ?thesis by (metis takeWhile_dropWhile_id)
  qed
  ultimately have "s = (takeWhile isspace s @ p) @ x @ (t @ rev (takeWhile isspace (rev (dropWhile isspace s))))"
    by simp
  then show "contains s x" unfolding contains_iff by blast
next
  assume "contains s x"
  then obtain p t where "s = p @ x @ t" by (auto simp: contains_iff)
  with dropWhile_keeps [of x isspace p t] assms obtain p' where 1: "dropWhile isspace s = p' @ x @ t"
    by blast
  have "rev x \<noteq> []" "\<not> isspace (hd (rev x))" using assms by (auto simp: hd_rev)
  with dropWhile_keeps [of "rev x" isspace "rev t" "rev p'"] obtain t' where
    "dropWhile isspace (rev t @ rev x @ rev p') = t' @ rev x @ rev p'" by blast
  with 1 have "strip s = p' @ x @ rev t'" by (simp add: strip_def)
  then show "contains (strip s) x" unfolding contains_iff by blast
qed

lemma contains_select_strip: "contains (lower (strip q)) ''select'' = contains (lower q) ''select''"
  by (simp add: strip_lower [symmetric] contains_strip isspace_def)

lemma run_select_guard_iff: "run_select_guard q = None \<longleftrightarrow> contains (lower q) ''select''"
  by (simp add: run_select_guard_def contains_select_strip)

lemma has_blocked_iff:
  "has_blocked q \<longleftrightarrow> (\<exists>x \<in> {''drop'', ''alter'', ''truncate'', ''create''}. \<exists>p t. lower q = p @ x @ t)"
  by (simp add: has_blocked_def blocked_def contains_iff)

section \<open>Properties of the pool initialisation\<close>

lemma statements_append: "statements (xs @ ys) = statements xs @ statements ys"
  by (induction xs rule: statements.induct) auto


lemma initialize_db_pool_ready:
  "db_pool s = Some pl \<Longrightarrow> initialize_db_pool B s = (Inr (), s)"
  by (simp add: initialize_db_pool_def)

lemma initialize_db_pool_Inr:
  assumes "initialize_db_pool B s = (Inr u, s1)"
  shows "db_pool s1 \<noteq> None" and "filter is_db_work (trace s1) = filter is_db_work (trace s)"
    and "statements (trace s1) = statements (trace s)"
  using assms
  by (auto simp: initialize_db_pool_def Let_def statements_append
      split: if_splits sum.splits prod.splits)

lemma initialize_db_pool_Inl:
  assumes "initialize_db_pool B s = (Inl e, s1)"
  shows "db_pool s = None" and "db_pool s1 = None"
    and "filter is_db_work (trace s1) = filter is_db_work (trace s)"
    and "statements (trace s1) = statements (trace s)"
    and "\<forall>m. e \<noteq> ValueError m"
  using assms
  by (auto simp: initialize_db_pool_def Let_def statements_append int_env_def
      split: if_splits sum.splits prod.splits option.splits)


section \<open>The guard of run\_sql against DDL\<close>

text \<open>
  C1. A statement whose lowercased text contains \<open>drop\<close>, \<open>alter\<close>, \<open>truncate\<close> or \<open>create\<close>
  is rejected by \<open>run_sql\<close> with \<open>ValueError('DDL commands not allowed.')\<close> as soon as
  \<open>initialize_db_pool\<close> has returned, whatever else the text holds and before the
  starts-with-select check; in \<open>mcp_server.py\<close> the pool is initialised first, so a failure
  to create the pool is raised instead, and with a pool in place the state is left as it
  was. In neither case is a connection acquired or a statement sent. In \<open>main.py\<close> the
  rejection comes before any call to the database.
\<close>

theorem run_sql_rejects_ddl:
  assumes "x \<in> set blocked" and "lower q = p @ x @ t"
  shows "(\<forall>e s1. initialize_db_pool B s = (Inl e, s1) \<longrightarrow> run_sql B q s = (Inl e, s1))
       \<and> (\<forall>u s1. initialize_db_pool B s = (Inr u, s1) \<longrightarrow>
            run_sql B q s = (Inl (ValueError ''DDL commands not allowed.''), s1))
       \<and> (db_pool s \<noteq> None \<longrightarrow> run_sql B q s = (Inl (ValueError ''DDL commands not allowed.''), s))
       \<and> filter is_db_work (trace (snd (run_sql B q s))) = filter is_db_work (trace s)
       \<and> main_run_sql D cfg q s = (Inl (ValueError ''DDL commands not allowed.''), s)"
proof -
  from assms have hb: "has_blocked q"
    by (auto simp: has_blocked_def list_ex_iff contains_iff)
  then have g: "run_sql_guard q = Some (ValueError ''DDL commands not allowed.'')"
    by (simp add: run_sql_guard_def)
  have 1: "\<forall>e s1. initialize_db_pool B s = (Inl e, s1) \<longrightarrow> run_sql B q s = (Inl e, s1)"
    by (simp add: run_sql_def)
  have 2: "\<forall>u s1. initialize_db_pool B s = (Inr u, s1) \<longrightarrow>
            run_sql B q s = (Inl (ValueError ''DDL commands not allowed.''), s1)"
    by (simp add: run_sql_def g)
  have 3: "db_pool s \<noteq> None \<longrightarrow> run_sql B q s = (Inl (ValueError ''DDL commands not allowed.''), s)"
    using 2 by (auto simp: initialize_db_pool_ready)
  have 4: "filter is_db_work (trace (snd (run_sql B q s))) = filter is_db_work (trace s)"
  proof (cases "initialize_db_pool B s")
    case (Pair r s1)
    then show ?thesis
      using 1 2 initialize_db_pool_Inr(2) [of B s _ s1] initialize_db_pool_Inl(3) [of B s _ s1]
      by (cases r) auto
  qed
  have 5: "main_run_sql D cfg q s = (Inl (ValueError ''DDL commands not allowed.''), s)"
    using hb by (simp add: main_run_sql_def)
  from 1 2 3 4 5 show ?thesis by blast
qed

text \<open>The theorem at \<open>DROP TABLE users\<close>, with a pool in place.\<close>

theorem run_sql_rejects_ddl_witness:
  "''drop'' \<in> set blocked \<and> lower ''DROP TABLE users'' = [] @ ''drop'' @ '' table users''
   \<and> run_sql accepting_db ''DROP TABLE users'' (start_state\<lparr>db_pool := Some 1\<rparr>)
       = (Inl (ValueError ''DDL commands not allowed.''), start_state\<lparr>db_pool := Some 1\<rparr>)"
proof -
  have h1: "''drop'' \<in> set blocked" by (simp add: blocked_def)
  have h2: "lower ''DROP TABLE users'' = [] @ ''drop'' @ '' table users''"
    by (simp add: lower_def lower_char_def)
  from run_sql_rejects_ddl [OF h1 h2, of accepting_db "start_state\<lparr>db_pool := Some 1\<rparr>"]
  show ?thesis using h1 h2 by (simp add: start_state_def)
qed

text \<open>
  At the start of the process, with a database that cannot be reached, \<open>run_sql\<close> on
  \<open>DROP TABLE users\<close> tries to create the pool and raises the library's error, not the
  \<open>ValueError\<close> of the guard.
\<close>

theorem run_sql_ddl_counterexample:
  "has_blocked ''DROP TABLE users''
   \<and> fst (run_sql unreachable_db ''DROP TABLE users'' start_state)
       = Inl (LibraryError ''connection refused'')
   \<and> trace (snd (run_sql unreachable_db ''DROP TABLE users'' start_state))
       = [CreatePool \<lparr>host = None, port = 5432, database = None, user = None, password = None\<rparr>
            None]"
  by (simp add: has_blocked_def blocked_def lower_def lower_char_def run_sql_def
      initialize_db_pool_def int_env_def unreachable_db_def start_state_def)

section \<open>Properties of the operations\<close>

lemma lib_result_no_ValueError: "lib_result r \<noteq> Inl (ValueError m)"
  by (cases r) (auto simp: lib_result_def)

lemma with_acquire_no_ValueError:
  assumes "\<And>c s'. fst (body c s') \<noteq> Inl (ValueError m)"
  shows "fst (with_acquire B body s) \<noteq> Inl (ValueError m)"
proof (cases "db_pool s")
  case None
  then show ?thesis by (simp add: with_acquire_def)
next
  case (Some pl)
  show ?thesis
  proof (cases "acquire B pl (world s)")
    case (Pair r w)
    show ?thesis
    proof (cases r)
      case (Inl m')
      with Some Pair show ?thesis by (simp add: with_acquire_def)
    next
      case (Inr c)
      with Some Pair assms [of c "s\<lparr>world := w, trace := trace s @ [Acquire pl]\<rparr>"]
      show ?thesis
        by (auto simp: with_acquire_def split: prod.splits sum.splits)
    qed
  qed
qed

lemma fetch_body_no_ValueError:
  "fst (case conn_fetch B c q args s2 of
          (Inl e, s3) \<Rightarrow> (Inl e, s3)
        | (Inr records, s3) \<Rightarrow> (Inr (f records), s3)) \<noteq> Inl (ValueError m)"
  by (auto simp: conn_fetch_def lib_result_def split: prod.splits sum.splits)

lemma fetch_statements_cases:
  "statements (trace (snd (with_acquire B
       (\<lambda>c s2. case conn_fetch B c q args s2 of
                  (Inl e, s3) \<Rightarrow> (Inl e, s3)
                | (Inr records, s3) \<Rightarrow> (Inr (f records), s3)) s1)))
     = statements (trace s1) @ (if \<exists>pl c w. db_pool s1 = Some pl \<and> acquire B pl (world s1) = (Inr c, w)
                                then [(q, args)] else [])"
  by (auto simp: with_acquire_def conn_fetch_def statements_append
      split: prod.splits sum.splits option.splits)

lemma fetch_result:
  assumes "db_pool s1 = Some pl" and "acquire B pl (world s1) = (Inr c, w)"
    and "fetch B c q args w = (Inr rows, w1)" and "release B pl c w1 = (Inr (), w2)"
  shows "fst (with_acquire B
       (\<lambda>c s2. case conn_fetch B c q args s2 of
                  (Inl e, s3) \<Rightarrow> (Inl e, s3)
                | (Inr records, s3) \<Rightarrow> (Inr (f records), s3)) s1) = Inr (f rows)"
  using assms by (simp add: with_acquire_def conn_fetch_def lib_result_def)

lemma execute_statements_cases:
  "statements (trace (snd (with_acquire B
       (\<lambda>c s2. case conn_execute B c q s2 of
                  (Inl e, s3) \<Rightarrow> (Inl e, s3)
                | (Inr result, s3) \<Rightarrow> (case last_word result of Inl e \<Rightarrow> (Inl e, s3)
                     | Inr rows_affected \<Rightarrow> (Inr (g rows_affected), s3))) s1)))
     = statements (trace s1) @ (if \<exists>pl c w. db_pool s1 = Some pl \<and> acquire B pl (world s1) = (Inr c, w)
                                then [(q, [])] else [])"
  by (auto simp: with_acquire_def conn_execute_def statements_append
      split: prod.splits sum.splits option.splits)

lemma run_select_statements:
  "statements (trace (snd (run_select B q s)))
     = statements (trace s) @
       (if contains (lower q) ''select'' \<and>
           (\<exists>u s1 pl c w. initialize_db_pool B s = (Inr u, s1) \<and> db_pool s1 = Some pl
              \<and> acquire B pl (world s1) = (Inr c, w))
        then [(q, [])] else [])"
proof (cases "initialize_db_pool B s")
  case (Pair r s1)
  show ?thesis
  proof (cases r)
    case (Inl e)
    with Pair initialize_db_pool_Inl(4) [of B s e s1] show ?thesis
      by (simp add: run_select_def)
  next
    case (Inr u)
    with Pair initialize_db_pool_Inr(3) [of B s u s1] show ?thesis
      by (cases "run_select_guard q")
        (auto simp: run_select_def fetch_statements_cases run_select_guard_iff [symmetric])
  qed
qed

lemma run_sql_statements:
  "statements (trace (snd (run_sql B q s)))
     = statements (trace s) @
       (if run_sql_guard q = None \<and>
           (\<exists>u s1 pl c w. initialize_db_pool B s = (Inr u, s1) \<and> db_pool s1 = Some pl
              \<and> acquire B pl (world s1) = (Inr c, w))
        then [(q, [])] else [])"
proof (cases "initialize_db_pool B s")
  case (Pair r s1)
  show ?thesis
  proof (cases r)
    case (Inl e)
    with Pair initialize_db_pool_Inl(4) [of B s e s1] show ?thesis
      by (simp add: run_sql_def)
  next
    case (Inr u)
    with Pair initialize_db_pool_Inr(3) [of B s u s1] show ?thesis
      by (cases "run_sql_guard q") (auto simp: run_sql_def execute_statements_cases)
  qed
qed

lemma with_conn_no_ValueError:
  assumes "\<And>c s'. fst (body c s') \<noteq> Inl (ValueError m)"
  shows "fst (with_conn D cfg body s) \<noteq> Inl (ValueError m)"
proof (cases "connect D cfg (world s)")
  case (Pair r w)
  show ?thesis
  proof (cases r)
    case (Inl m')
    with Pair show ?thesis by (simp add: with_conn_def)
  next
    case (Inr c)
    with Pair assms [of c "s\<lparr>world := w, trace := trace s @ [Connect cfg (Some c)]\<rparr>"]
    show ?thesis
      by (auto simp: with_conn_def split: prod.splits sum.splits)
  qed
qed

lemma execute_fetchall_no_ValueError:
  "fst (execute_fetchall D q c s) \<noteq> Inl (ValueError m)"
  by (auto simp: execute_fetchall_def cur_execute_def cur_fetchall_def lib_result_def
      split: prod.splits sum.splits)

lemma preview_table_statements:
  "statements (trace (snd (preview_table B table s)))
     = statements (trace s) @
       (if \<exists>u s1 pl c w. initialize_db_pool B s = (Inr u, s1) \<and> db_pool s1 = Some pl
              \<and> acquire B pl (world s1) = (Inr c, w)
        then [(''SELECT * FROM '' @ table @ '' LIMIT 10'', [])] else [])"
proof (cases "initialize_db_pool B s")
  case (Pair r s1)
  show ?thesis
  proof (cases r)
    case (Inl e)
    with Pair initialize_db_pool_Inl(4) [of B s e s1] show ?thesis
      by (simp add: preview_table_def)
  next
    case (Inr u)
    with Pair initialize_db_pool_Inr(3) [of B s u s1] show ?thesis
      by (auto simp: preview_table_def fetch_statements_cases)
  qed
qed

lemma main_fetch_statements:
  "statements (trace (snd (with_conn D cfg (execute_fetchall D q) s)))
     = statements (trace s) @
       (if \<exists>c w. connect D cfg (world s) = (Inr c, w) then [(q, [])] else [])"
  by (auto simp: with_conn_def execute_fetchall_def cur_execute_def cur_fetchall_def
      statements_append split: prod.splits sum.splits)

lemma main_fetch_result:
  assumes "connect D cfg (world s) = (Inr c, w)" and "cursor_execute D c q w = (Inr (), w1)"
    and "fetchall D c w1 = (Inr rows, w2)" and "commit D c w2 = (Inr (), w3)"
  shows "fst (with_conn D cfg (execute_fetchall D q) s) = Inr (map dict_of rows)"
  using assms
  by (simp add: with_conn_def execute_fetchall_def cur_execute_def cur_fetchall_def
      lib_result_def)

lemma run_select_no_other_ValueError:
  assumes "initialize_db_pool B s = (Inr u, s1)" and "run_select_guard q = None"
  shows "fst (run_select B q s) \<noteq> Inl (ValueError m)"
  using assms with_acquire_no_ValueError [of _ m B s1, OF fetch_body_no_ValueError]
  by (simp add: run_select_def)

lemma main_run_select_statements:
  "statements (trace (snd (main_run_select D cfg q s)))
     = statements (trace s) @
       (if contains (lower q) ''select'' \<and> (\<exists>c w. connect D cfg (world s) = (Inr c, w))
        then [(q, [])] else [])"
  by (simp add: main_run_select_def main_fetch_statements)

lemma dict_of_iff:
  "dict_of r k = Some v \<longleftrightarrow> (\<exists>pre post. r = pre @ (k, v) # post \<and> k \<notin> fst ` set post)"
proof (induction r rule: rev_induct)
  case Nil
  then show ?case by (simp add: dict_of_def)
next
  case (snoc x xs)
  show ?case
  proof (cases "k = fst x")
    case True
    have "(\<exists>pre post. xs @ [x] = pre @ (k, v) # post \<and> k \<notin> fst ` set post) \<longleftrightarrow> v = snd x"
    proof
      assume "\<exists>pre post. xs @ [x] = pre @ (k, v) # post \<and> k \<notin> fst ` set post"
      then obtain pre post where d: "xs @ [x] = pre @ (k, v) # post" and n: "k \<notin> fst ` set post"
        by blast
      show "v = snd x"
      proof (cases post rule: rev_cases)
        case Nil
        with d show ?thesis by simp
      next
        case (snoc ys y)
        with d have "x = y" by simp
        with snoc n True show ?thesis by simp
      qed
    next
      assume "v = snd x"
      with True have "xs @ [x] = xs @ (k, v) # []" by simp
      then show "\<exists>pre post. xs @ [x] = pre @ (k, v) # post \<and> k \<notin> fst ` set post"
        by (metis empty_iff image_is_empty list.set(1))
    qed
    with True show ?thesis by (auto simp: dict_of_def)
  next
    case False
    have "(\<exists>pre post. xs @ [x] = pre @ (k, v) # post \<and> k \<notin> fst ` set post)
      \<longleftrightarrow> (\<exists>pre post. xs = pre @ (k, v) # post \<and> k \<notin> fst ` set post)"
    proof
      assume "\<exists>pre post. xs @ [x] = pre @ (k, v) # post \<and> k \<notin> fst ` set post"
      then obtain pre post where d: "xs @ [x] = pre @ (k, v) # post" and n: "k \<notin> fst ` set post"
        by blast
      show "\<exists>pre post. xs = pre @ (k, v) # post \<and> k \<notin> fst ` set post"
      proof (cases post rule: rev_cases)
        case Nil
        with d have "x = (k, v)" by simp
        with False show ?thesis by simp
      next
        case (snoc ys y)
        with d have "xs = pre @ (k, v) # ys" by simp
        moreover from snoc n have "k \<notin> fst ` set ys" by simp
        ultimately show ?thesis by blast
      qed
    next
      assume "\<exists>pre post. xs = pre @ (k, v) # post \<and> k \<notin> fst ` set post"
      then obtain pre post where d: "xs = pre @ (k, v) # post" and n: "k \<notin> fst ` set post"
        by blast
      from d have "xs @ [x] = pre @ (k, v) # (post @ [x])" by simp
      moreover from n False have "k \<notin> fst ` set (post @ [x])" by simp
      ultimately show "\<exists>pre post. xs @ [x] = pre @ (k, v) # post \<and> k \<notin> fst ` set post"
        by blast
    qed
    with False snoc show ?thesis by (simp add: dict_of_def)
  qed
qed

lemma map_dict_of_rows:
  "\<exists>ds. Inr (map dict_of rows) = (Inr ds :: exn + (string \<rightharpoonup> pg_value) list)
     \<and> length ds = length rows
     \<and> (\<forall>i<length rows. \<forall>k v. (ds ! i) k = Some v
          \<longleftrightarrow> (\<exists>pre post. rows ! i = pre @ (k, v) # post \<and> k \<notin> fst ` set post))"
  by (rule exI [of _ "map dict_of rows"]) (simp add: dict_of_iff)

section \<open>The guard of run\_sql against SELECT\<close>

text \<open>
  C4. A statement with no forbidden token whose trimmed, lowercased text starts with
  \<open>select\<close> is rejected by \<open>run_sql\<close> with the \<open>ValueError\<close> that points to \<open>run_select\<close>
  as soon as \<open>initialize_db_pool\<close> has returned, and is never sent to the database; in
  \<open>mcp_server.py\<close> a failure to create the pool is raised instead, and with a pool in place
  the state is left as it was. In \<open>main.py\<close> the rejection comes before any call to the
  database.
\<close>

theorem run_sql_rejects_select:
  assumes "\<not> has_blocked q" and "startswith (lower (strip q)) ''select''"
  shows "(\<forall>e s1. initialize_db_pool B s = (Inl e, s1) \<longrightarrow> run_sql B q s = (Inl e, s1))
       \<and> (\<forall>u s1. initialize_db_pool B s = (Inr u, s1) \<longrightarrow>
            run_sql B q s = (Inl (ValueError ''Use run_select() for SELECT queries.''), s1))
       \<and> (db_pool s \<noteq> None \<longrightarrow>
            run_sql B q s = (Inl (ValueError ''Use run_select() for SELECT queries.''), s))
       \<and> statements (trace (snd (run_sql B q s))) = statements (trace s)
       \<and> main_run_sql D cfg q s = (Inl (ValueError ''Use run_select() for SELECT.''), s)"
proof -
  from assms have g: "run_sql_guard q = Some (ValueError ''Use run_select() for SELECT queries.'')"
    by (simp add: run_sql_guard_def)
  have 1: "\<forall>e s1. initialize_db_pool B s = (Inl e, s1) \<longrightarrow> run_sql B q s = (Inl e, s1)"
    by (simp add: run_sql_def)
  have 2: "\<forall>u s1. initialize_db_pool B s = (Inr u, s1) \<longrightarrow>
            run_sql B q s = (Inl (ValueError ''Use run_select() for SELECT queries.''), s1)"
    by (simp add: run_sql_def g)
  have 3: "db_pool s \<noteq> None \<longrightarrow>
            run_sql B q s = (Inl (ValueError ''Use run_select() for SELECT queries.''), s)"
    using 2 by (auto simp: initialize_db_pool_ready)
  have 4: "statements (trace (snd (run_sql B q s))) = statements (trace s)"
    by (simp add: run_sql_statements g)
  have 5: "main_run_sql D cfg q s = (Inl (ValueError ''Use run_select() for SELECT.''), s)"
    using assms by (simp add: main_run_sql_def strip_lower)
  from 1 2 3 4 5 show ?thesis by blast
qed

text \<open>
  The theorem at \<open>Select 1\<close> behind a no-break space and two blanks, with a pool in place.
\<close>

theorem run_sql_rejects_select_witness:
  "\<not> has_blocked (CHR 0xA0 # ''  Select 1'')
   \<and> startswith (lower (strip (CHR 0xA0 # ''  Select 1''))) ''select''
   \<and> run_sql accepting_db (CHR 0xA0 # ''  Select 1'') (start_state\<lparr>db_pool := Some 1\<rparr>)
       = (Inl (ValueError ''Use run_select() for SELECT queries.''), start_state\<lparr>db_pool := Some 1\<rparr>)
   \<and> main_run_sql accepting_pg local_config (CHR 0xA0 # ''  Select 1'')
         (start_state\<lparr>db_pool := Some 1\<rparr>)
       = (Inl (ValueError ''Use run_select() for SELECT.''), start_state\<lparr>db_pool := Some 1\<rparr>)"
proof -
  have h1: "\<not> has_blocked (CHR 0xA0 # ''  Select 1'')"
    by (simp add: has_blocked_def blocked_def lower_def lower_char_def)
  have h2: "startswith (lower (strip (CHR 0xA0 # ''  Select 1''))) ''select''"
    by (simp add: strip_def isspace_def lower_def lower_char_def)
  from run_sql_rejects_select [OF h1 h2, of accepting_db "start_state\<lparr>db_pool := Some 1\<rparr>"
      accepting_pg local_config]
  show ?thesis using h1 h2 by (simp add: start_state_def)
qed

text \<open>
  At the start of the process, with a database that cannot be reached, \<open>run_sql\<close> on
  \<open>select 1\<close> raises the library's error of the pool creation, not the \<open>ValueError\<close>.
\<close>

theorem run_sql_select_counterexample:
  "\<not> has_blocked ''select 1'' \<and> startswith (lower (strip ''select 1'')) ''select''
   \<and> fst (run_sql unreachable_db ''select 1'' start_state)
       = Inl (LibraryError ''connection refused'')"
  by (simp add: has_blocked_def blocked_def lower_def lower_char_def strip_def isspace_def
      run_sql_def initialize_db_pool_def int_env_def unreachable_db_def start_state_def)

section \<open>A statement that both entry points admit\<close>

text \<open>
  C5. The statement \<open>UPDATE t SET note = 'please select carefully'\<close> holds \<open>select\<close>, not at
  its trimmed start, and no forbidden token; neither guard of \<open>run_sql\<close> raises on it and
  the guard of \<open>run_select\<close> does not raise on it either, so that, once the pool is there and
  a connection is acquired, \<open>run_sql\<close> sends it to the database as a command and
  \<open>run_select\<close> sends the same text as a query.
\<close>

theorem guards_overlap:
  "\<not> has_blocked overlap_example
   \<and> contains (lower overlap_example) ''select''
   \<and> \<not> startswith (lower (strip overlap_example)) ''select''
   \<and> run_sql_guard overlap_example = None
   \<and> run_select_guard overlap_example = None
   \<and> (\<forall>u s1 pl c w. initialize_db_pool B s = (Inr u, s1) \<longrightarrow> db_pool s1 = Some pl \<longrightarrow>
         acquire B pl (world s1) = (Inr c, w) \<longrightarrow>
           statements (trace (snd (run_sql B overlap_example s)))
             = statements (trace s) @ [(overlap_example, [])]
         \<and> statements (trace (snd (run_select B overlap_example s)))
             = statements (trace s) @ [(overlap_example, [])])"
proof -
  have 1: "\<not> has_blocked overlap_example"
    by (simp add: overlap_example_def has_blocked_def blocked_def lower_def lower_char_def)
  have 2: "contains (lower overlap_example) ''select''"
    by (simp add: overlap_example_def lower_def lower_char_def)
  have 3: "\<not> startswith (lower (strip overlap_example)) ''select''"
    by (simp add: overlap_example_def strip_def isspace_def lower_def lower_char_def)
  from 1 3 have 4: "run_sql_guard overlap_example = None"
    by (simp add: run_sql_guard_def)
  from 2 have 5: "run_select_guard overlap_example = None"
    by (simp add: run_select_guard_iff)
  from 1 2 3 4 5 show ?thesis
    by (auto simp: run_sql_statements run_select_statements)
qed

text \<open>
  Both entry points run the statement against the database that accepts everything,
  starting from the fresh process.
\<close>

theorem guards_overlap_witness:
  "fst (run_sql accepting_db overlap_example start_state)
     = Inr ''Executed successfully. Rows affected: 1''
   \<and> statements (trace (snd (run_sql accepting_db overlap_example start_state)))
     = [(overlap_example, [])]
   \<and> fst (run_select accepting_db overlap_example start_state)
     = Inr [dict_of [(''x'', PgInt 1)]]
   \<and> statements (trace (snd (run_select accepting_db overlap_example start_state)))
     = [(overlap_example, [])]"
proof -
  have i: "initialize_db_pool accepting_db start_state
     = (Inr (), start_state\<lparr>db_pool := Some 1,
          trace := [CreatePool \<lparr>host = None, port = 5432, database = None, user = None,
                                 password = None\<rparr> (Some 1)],
          stdout := [''INFO: PostgreSQL Connection Pool initialized successfully.'']\<rparr>)"
    by (simp add: initialize_db_pool_def int_env_def accepting_db_def start_state_def)
  have a: "\<And>pl w. acquire accepting_db pl w = (Inr 7, w)"
    and rl: "\<And>pl c w. release accepting_db pl c w = (Inr (), w)"
    and ft: "\<And>c q args w. fetch accepting_db c q args w = (Inr [[(''x'', PgInt 1)]], w)"
    and ex: "\<And>c q w. execute accepting_db c q w = (Inr ''UPDATE 1'', w)"
    by (simp_all add: accepting_db_def)
  have lw: "last_word ''UPDATE 1'' = Inr ''1''"
    by (simp add: last_word_def split_def isspace_def)
  from guards_overlap [of accepting_db start_state] i a
  have g: "run_sql_guard overlap_example = None" "run_select_guard overlap_example = None"
    "statements (trace (snd (run_sql accepting_db overlap_example start_state)))
       = [(overlap_example, [])]"
    "statements (trace (snd (run_select accepting_db overlap_example start_state)))
       = [(overlap_example, [])]"
    by (simp_all add: start_state_def)
  have r1: "fst (run_sql accepting_db overlap_example start_state)
     = Inr ''Executed successfully. Rows affected: 1''"
    by (simp add: run_sql_def i g with_acquire_def conn_execute_def lib_result_def lw
        a rl ex)
  have r2: "fst (run_select accepting_db overlap_example start_state)
     = Inr [dict_of [(''x'', PgInt 1)]]"
    by (simp add: run_select_def i g with_acquire_def conn_fetch_def lib_result_def
        a rl ft)
  from g r1 r2 show ?thesis by simp
qed

section \<open>run\_select and the DDL tokens\<close>

text \<open>
  C2. A statement that holds a forbidden DDL token is to be refused by \<open>run_select\<close>, which
  by its documentation runs read-only \<open>SELECT\<close> queries and says so in its error message;
  \<open>run_sql\<close> refuses such a statement. \<open>run_select\<close> checks only that the lowercased text
  holds \<open>select\<close> somewhere. \<open>DROP TABLE selections\<close> holds \<open>drop\<close> and \<open>select\<close>: against
  the database that accepts everything, from the fresh process, \<open>run_select\<close> creates the
  pool, takes a connection, sends the statement and returns rows, where \<open>run_sql\<close> raises
  its \<open>ValueError\<close>; \<open>run_select\<close> of \<open>main.py\<close> sends it as well.
\<close>

theorem run_select_executes_ddl:
  "has_blocked ''DROP TABLE selections''
   \<and> trace (snd (run_select accepting_db ''DROP TABLE selections'' start_state))
       = [CreatePool \<lparr>host = None, port = 5432, database = None, user = None, password = None\<rparr>
            (Some 1),
          Acquire 1, Fetch 7 ''DROP TABLE selections'' [], Release 1 7]
   \<and> (\<exists>ds. fst (run_select accepting_db ''DROP TABLE selections'' start_state) = Inr ds)
   \<and> fst (run_sql accepting_db ''DROP TABLE selections'' start_state)
       = Inl (ValueError ''DDL commands not allowed.'')
   \<and> trace (snd (main_run_select accepting_pg local_config ''DROP TABLE selections'' start_state))
       = [Connect local_config (Some 7), CursorExecute 7 ''DROP TABLE selections'', Fetchall 7,
          Commit 7]"
proof -
  have h: "has_blocked ''DROP TABLE selections''"
    by (simp add: has_blocked_def blocked_def lower_def lower_char_def)
  have g: "run_select_guard ''DROP TABLE selections'' = None"
    by (simp add: run_select_guard_def strip_def isspace_def lower_def lower_char_def)
  have c: "contains (lower ''DROP TABLE selections'') ''select''"
    by (simp add: lower_def lower_char_def)
  have i: "initialize_db_pool accepting_db start_state
     = (Inr (), start_state\<lparr>db_pool := Some 1,
          trace := [CreatePool \<lparr>host = None, port = 5432, database = None, user = None,
                                 password = None\<rparr> (Some 1)],
          stdout := [''INFO: PostgreSQL Connection Pool initialized successfully.'']\<rparr>)"
    by (simp add: initialize_db_pool_def int_env_def accepting_db_def start_state_def)
  have a: "\<And>pl w. acquire accepting_db pl w = (Inr 7, w)"
    and rl: "\<And>pl c w. release accepting_db pl c w = (Inr (), w)"
    and ft: "\<And>c q args w. fetch accepting_db c q args w = (Inr [[(''x'', PgInt 1)]], w)"
    by (simp_all add: accepting_db_def)
  have r: "\<exists>ds. fst (run_select accepting_db ''DROP TABLE selections'' start_state) = Inr ds"
    by (simp add: run_select_def i g with_acquire_def conn_fetch_def lib_result_def a rl ft)
  have t: "trace (snd (run_select accepting_db ''DROP TABLE selections'' start_state))
       = [CreatePool \<lparr>host = None, port = 5432, database = None, user = None, password = None\<rparr>
            (Some 1),
          Acquire 1, Fetch 7 ''DROP TABLE selections'' [], Release 1 7]"
    by (simp add: run_select_def i g with_acquire_def conn_fetch_def lib_result_def a rl ft)
  have q: "fst (run_sql accepting_db ''DROP TABLE selections'' start_state)
       = Inl (ValueError ''DDL commands not allowed.'')"
    by (simp add: run_sql_def i run_sql_guard_def h)
  have pg: "\<And>cfg w. connect accepting_pg cfg w = (Inr 7, w)"
    "\<And>c q w. cursor_execute accepting_pg c q w = (Inr (), w)"
    "\<And>c w. fetchall accepting_pg c w = (Inr [[(''x'', PgInt 1)]], w)"
    "\<And>c w. commit accepting_pg c w = (Inr (), w)"
    by (simp_all add: accepting_pg_def)
  have m: "trace (snd (main_run_select accepting_pg local_config ''DROP TABLE selections'' start_state))
       = [Connect local_config (Some 7), CursorExecute 7 ''DROP TABLE selections'', Fetchall 7,
          Commit 7]"
    by (simp add: main_run_select_def c with_conn_def execute_fetchall_def cur_execute_def
        cur_fetchall_def lib_result_def pg start_state_def)
  from h t r q m show ?thesis by (intro conjI)
qed

section \<open>The guard of run\_select\<close>

text \<open>
  C3. Once \<open>initialize_db_pool\<close> has returned, \<open>run_select\<close> raises its \<open>ValueError\<close> if and
  only if the lowercased text does not hold \<open>select\<close>; in every state the \<open>ValueError\<close> is
  raised only for such a text, and a failure to create the pool is raised before the guard
  is reached. A text with \<open>select\<close> anywhere passes the guard: it is sent to the database,
  as it is and with no bound argument, exactly when a connection is acquired, and nothing
  else is sent. When the fetch then returns rows and the connection goes back without
  error, the result has one mapping for each row, in the order of the rows, and the mapping
  of a row takes a column name to a value exactly when the row has a column of that name
  and the last such column holds that value. In \<open>main.py\<close> the \<open>ValueError\<close> is raised if
  and only if the lowercased text does not hold \<open>select\<close>, the text is sent exactly when the
  connection is made, and the rows come back as the same mappings.
\<close>

theorem run_select_intent_mismatch:
  "(\<forall>u s1. initialize_db_pool B s = (Inr u, s1) \<longrightarrow>
      (fst (run_select B q s) = Inl (ValueError ''Only SELECT queries allowed for data retrieval.'')
         \<longleftrightarrow> \<not> contains (lower q) ''select''))
   \<and> (fst (run_select B q s) = Inl (ValueError ''Only SELECT queries allowed for data retrieval.'')
         \<longrightarrow> \<not> contains (lower q) ''select'')
   \<and> (\<forall>e s1. initialize_db_pool B s = (Inl e, s1) \<longrightarrow> run_select B q s = (Inl e, s1))
   \<and> statements (trace (snd (run_select B q s)))
       = statements (trace s) @
         (if contains (lower q) ''select'' \<and>
             (\<exists>u s1 pl c w. initialize_db_pool B s = (Inr u, s1) \<and> db_pool s1 = Some pl
                \<and> acquire B pl (world s1) = (Inr c, w))
          then [(q, [])] else [])
   \<and> (contains (lower q) ''select'' \<longrightarrow>
        (\<forall>u s1 pl c w rows w1 w2. initialize_db_pool B s = (Inr u, s1) \<longrightarrow>
           db_pool s1 = Some pl \<longrightarrow> acquire B pl (world s1) = (Inr c, w) \<longrightarrow>
           fetch B c q [] w = (Inr rows, w1) \<longrightarrow> release B pl c w1 = (Inr (), w2) \<longrightarrow>
           (\<exists>ds. fst (run_select B q s) = Inr ds \<and> length ds = length rows
              \<and> (\<forall>i<length rows. \<forall>k v. (ds ! i) k = Some v
                   \<longleftrightarrow> (\<exists>pre post. rows ! i = pre @ (k, v) # post \<and> k \<notin> fst ` set post)))))
   \<and> (fst (main_run_select D cfg q s) = Inl (ValueError ''Only SELECT queries allowed.'')
         \<longleftrightarrow> \<not> contains (lower q) ''select'')
   \<and> statements (trace (snd (main_run_select D cfg q s)))
       = statements (trace s) @
         (if contains (lower q) ''select'' \<and> (\<exists>c w. connect D cfg (world s) = (Inr c, w))
          then [(q, [])] else [])
   \<and> (contains (lower q) ''select'' \<longrightarrow>
        (\<forall>c w w1 rows w2 w3. connect D cfg (world s) = (Inr c, w) \<longrightarrow>
           cursor_execute D c q w = (Inr (), w1) \<longrightarrow> fetchall D c w1 = (Inr rows, w2) \<longrightarrow>
           commit D c w2 = (Inr (), w3) \<longrightarrow>
           (\<exists>ds. fst (main_run_select D cfg q s) = Inr ds \<and> length ds = length rows
              \<and> (\<forall>i<length rows. \<forall>k v. (ds ! i) k = Some v
                   \<longleftrightarrow> (\<exists>pre post. rows ! i = pre @ (k, v) # post \<and> k \<notin> fst ` set post)))))"
proof -
  have 1: "\<forall>u s1. initialize_db_pool B s = (Inr u, s1) \<longrightarrow>
      (fst (run_select B q s) = Inl (ValueError ''Only SELECT queries allowed for data retrieval.'')
         \<longleftrightarrow> \<not> contains (lower q) ''select'')"
  proof (intro allI impI)
    fix u s1 assume i: "initialize_db_pool B s = (Inr u, s1)"
    show "fst (run_select B q s) = Inl (ValueError ''Only SELECT queries allowed for data retrieval.'')
         \<longleftrightarrow> \<not> contains (lower q) ''select''"
    proof (cases "contains (lower q) ''select''")
      case True
      then have "run_select_guard q = None" by (simp add: run_select_guard_iff)
      from run_select_no_other_ValueError [OF i this] True show ?thesis by simp
    next
      case False
      then have "run_select_guard q
        = Some (ValueError ''Only SELECT queries allowed for data retrieval.'')"
        by (simp add: run_select_guard_def contains_select_strip)
      with i False show ?thesis by (simp add: run_select_def)
    qed
  qed
  have 3: "\<forall>e s1. initialize_db_pool B s = (Inl e, s1) \<longrightarrow> run_select B q s = (Inl e, s1)"
    by (simp add: run_select_def)
  have 2: "fst (run_select B q s) = Inl (ValueError ''Only SELECT queries allowed for data retrieval.'')
         \<longrightarrow> \<not> contains (lower q) ''select''"
  proof (cases "initialize_db_pool B s")
    case (Pair r s1)
    show ?thesis
    proof (cases r)
      case (Inl e)
      with Pair 3 initialize_db_pool_Inl(5) [of B s e s1] show ?thesis by auto
    next
      case (Inr u)
      with Pair 1 show ?thesis by auto
    qed
  qed
  note 4 = run_select_statements [of B q s]
  have 5: "contains (lower q) ''select'' \<longrightarrow>
        (\<forall>u s1 pl c w rows w1 w2. initialize_db_pool B s = (Inr u, s1) \<longrightarrow>
           db_pool s1 = Some pl \<longrightarrow> acquire B pl (world s1) = (Inr c, w) \<longrightarrow>
           fetch B c q [] w = (Inr rows, w1) \<longrightarrow> release B pl c w1 = (Inr (), w2) \<longrightarrow>
           (\<exists>ds. fst (run_select B q s) = Inr ds \<and> length ds = length rows
              \<and> (\<forall>i<length rows. \<forall>k v. (ds ! i) k = Some v
                   \<longleftrightarrow> (\<exists>pre post. rows ! i = pre @ (k, v) # post \<and> k \<notin> fst ` set post))))"
  proof (intro impI allI)
    fix u s1 pl c w rows w1 w2
    assume c: "contains (lower q) ''select''" and i: "initialize_db_pool B s = (Inr u, s1)"
      and p: "db_pool s1 = Some pl" and a: "acquire B pl (world s1) = (Inr c, w)"
      and f: "fetch B c q [] w = (Inr rows, w1)" and r: "release B pl c w1 = (Inr (), w2)"
    from c have g: "run_select_guard q = None" by (simp add: run_select_guard_iff)
    have "fst (run_select B q s) = Inr (map dict_of rows)"
      using fetch_result [OF p a f r, of "map dict_of"] by (simp add: run_select_def i g)
    with map_dict_of_rows [of rows]
    show "\<exists>ds. fst (run_select B q s) = Inr ds \<and> length ds = length rows
              \<and> (\<forall>i<length rows. \<forall>k v. (ds ! i) k = Some v
                   \<longleftrightarrow> (\<exists>pre post. rows ! i = pre @ (k, v) # post \<and> k \<notin> fst ` set post))"
      by simp
  qed
  have 6: "fst (main_run_select D cfg q s) = Inl (ValueError ''Only SELECT queries allowed.'')
         \<longleftrightarrow> \<not> contains (lower q) ''select''"
    using with_conn_no_ValueError [of "execute_fetchall D q" "''Only SELECT queries allowed.''" D cfg s,
        OF execute_fetchall_no_ValueError]
    by (auto simp: main_run_select_def)
  note 7 = main_run_select_statements [of D cfg q s]
  have 8: "contains (lower q) ''select'' \<longrightarrow>
        (\<forall>c w w1 rows w2 w3. connect D cfg (world s) = (Inr c, w) \<longrightarrow>
           cursor_execute D c q w = (Inr (), w1) \<longrightarrow> fetchall D c w1 = (Inr rows, w2) \<longrightarrow>
           commit D c w2 = (Inr (), w3) \<longrightarrow>
           (\<exists>ds. fst (main_run_select D cfg q s) = Inr ds \<and> length ds = length rows
              \<and> (\<forall>i<length rows. \<forall>k v. (ds ! i) k = Some v
                   \<longleftrightarrow> (\<exists>pre post. rows ! i = pre @ (k, v) # post \<and> k \<notin> fst ` set post))))"
  proof (intro impI allI)
    fix c w w1 rows w2 w3
    assume s: "contains (lower q) ''select''" and a: "connect D cfg (world s) = (Inr c, w)"
      and e: "cursor_execute D c q w = (Inr (), w1)" and f: "fetchall D c w1 = (Inr rows, w2)"
      and k: "commit D c w2 = (Inr (), w3)"
    have "fst (main_run_select D cfg q s) = Inr (map dict_of rows)"
      using main_fetch_result [OF a e f k] s by (simp add: main_run_select_def)
    with map_dict_of_rows [of rows]
    show "\<exists>ds. fst (main_run_select D cfg q s) = Inr ds \<and> length ds = length rows
              \<and> (\<forall>i<length rows. \<forall>k v. (ds ! i) k = Some v
                   \<longleftrightarrow> (\<exists>pre post. rows ! i = pre @ (k, v) # post \<and> k \<notin> fst ` set post))"
      by simp
  qed
  from 1 2 3 4 5 6 7 8 show ?thesis by (intro conjI)
qed

text \<open>
  The theorem at \<open>Select x From t\<close>, from the fresh process: the one row comes back as a
  mapping that takes \<open>x\<close> to 1 and has no \<open>y\<close>.
\<close>

theorem run_select_intent_mismatch_witness:
  "contains (lower ''Select x From t'') ''select''
   \<and> statements (trace (snd (run_select accepting_db ''Select x From t'' start_state)))
       = [(''Select x From t'', [])]
   \<and> (\<exists>d. fst (run_select accepting_db ''Select x From t'' start_state) = Inr [d]
          \<and> d ''x'' = Some (PgInt 1) \<and> d ''y'' = None)"
proof -
  have c: "contains (lower ''Select x From t'') ''select''"
    by (simp add: lower_def lower_char_def)
  have i: "initialize_db_pool accepting_db start_state
     = (Inr (), start_state\<lparr>db_pool := Some 1,
          trace := [CreatePool \<lparr>host = None, port = 5432, database = None, user = None,
                                 password = None\<rparr> (Some 1)],
          stdout := [''INFO: PostgreSQL Connection Pool initialized successfully.'']\<rparr>)"
    by (simp add: initialize_db_pool_def int_env_def accepting_db_def start_state_def)
  have a: "\<And>pl w. acquire accepting_db pl w = (Inr 7, w)"
    and rl: "\<And>pl c w. release accepting_db pl c w = (Inr (), w)"
    and ft: "\<And>c q args w. fetch accepting_db c q args w = (Inr [[(''x'', PgInt 1)]], w)"
    by (simp_all add: accepting_db_def)
  note t = run_select_intent_mismatch [of accepting_db start_state "''Select x From t''"]
  from t c i a have st: "statements (trace (snd (run_select accepting_db ''Select x From t'' start_state)))
       = statements (trace start_state) @ [(''Select x From t'', [])]"
    by simp
  from t c i a rl ft obtain ds where
    r: "fst (run_select accepting_db ''Select x From t'' start_state) = Inr ds"
    and l: "length ds = Suc 0"
    and m: "\<And>k v. (ds ! 0) k = Some v
              \<longleftrightarrow> (\<exists>pre post. [(''x'', PgInt 1)] = pre @ (k, v) # post \<and> k \<notin> fst ` set post)"
    by fastforce
  from l obtain d where ds: "ds = [d]" by (cases ds) auto
  have x: "d ''x'' = Some (PgInt 1)"
    using m [of "''x''" "PgInt 1"] ds by (simp add: exI [of _ "[]"])
  have "\<And>v. d ''y'' \<noteq> Some v"
    using m [of "''y''"] ds by (auto simp: Cons_eq_append_conv)
  then have y: "d ''y'' = None" by (cases "d ''y''") auto
  from c st r ds x y show ?thesis by (simp add: start_state_def)
qed

text \<open>
  At the start of the process, with a database that cannot be reached, \<open>run_select\<close> on
  \<open>DELETE FROM t\<close>, which holds no \<open>select\<close>, raises the library's error of the pool
  creation, not the \<open>ValueError\<close>.
\<close>

theorem run_select_intent_counterexample:
  "\<not> contains (lower ''DELETE FROM t'') ''select''
   \<and> fst (run_select unreachable_db ''DELETE FROM t'' start_state)
       = Inl (LibraryError ''connection refused'')"
  by (simp add: lower_def lower_char_def run_select_def initialize_db_pool_def int_env_def
      unreachable_db_def start_state_def)

section \<open>preview\_table\<close>

text \<open>
  C9. The only statement \<open>preview_table\<close> sends to the database is
  \<open>SELECT * FROM \<close> followed by the argument, as it is, followed by \<open> LIMIT 10\<close>, with no
  bound argument; it is sent exactly when the pool is there and a connection is acquired,
  whatever the argument. When the fetch returns rows and the connection goes back without
  error, the result has one mapping for each row, in the order of the rows, and the mapping
  of a row takes a column name to a value exactly when the row has a column of that name
  and the last such column holds that value. The same holds in \<open>main.py\<close>, where the
  statement is sent whenever the connection is made.
\<close>

theorem preview_table_query:
  "statements (trace (snd (preview_table B table s)))
     = statements (trace s) @
       (if \<exists>u s1 pl c w. initialize_db_pool B s = (Inr u, s1) \<and> db_pool s1 = Some pl
              \<and> acquire B pl (world s1) = (Inr c, w)
        then [(''SELECT * FROM '' @ table @ '' LIMIT 10'', [])] else [])
   \<and> (\<forall>u s1 pl c w rows w1 w2. initialize_db_pool B s = (Inr u, s1) \<longrightarrow>
         db_pool s1 = Some pl \<longrightarrow> acquire B pl (world s1) = (Inr c, w) \<longrightarrow>
         fetch B c (''SELECT * FROM '' @ table @ '' LIMIT 10'') [] w = (Inr rows, w1) \<longrightarrow>
         release B pl c w1 = (Inr (), w2) \<longrightarrow>
         (\<exists>ds. fst (preview_table B table s) = Inr ds \<and> length ds = length rows
            \<and> (\<forall>i<length rows. \<forall>k v. (ds ! i) k = Some v
                 \<longleftrightarrow> (\<exists>pre post. rows ! i = pre @ (k, v) # post \<and> k \<notin> fst ` set post))))
   \<and> statements (trace (snd (main_preview_table D cfg table s)))
     = statements (trace s) @
       (if \<exists>c w. connect D cfg (world s) = (Inr c, w)
        then [(''SELECT * FROM '' @ table @ '' LIMIT 10'', [])] else [])
   \<and> (\<forall>c w w1 rows w2 w3. connect D cfg (world s) = (Inr c, w) \<longrightarrow>
         cursor_execute D c (''SELECT * FROM '' @ table @ '' LIMIT 10'') w = (Inr (), w1) \<longrightarrow>
         fetchall D c w1 = (Inr rows, w2) \<longrightarrow> commit D c w2 = (Inr (), w3) \<longrightarrow>
         (\<exists>ds. fst (main_preview_table D cfg table s) = Inr ds \<and> length ds = length rows
            \<and> (\<forall>i<length rows. \<forall>k v. (ds ! i) k = Some v
                 \<longleftrightarrow> (\<exists>pre post. rows ! i = pre @ (k, v) # post \<and> k \<notin> fst ` set post))))"
proof -
  note 1 = preview_table_statements [of B table s]
  have 2: "\<forall>u s1 pl c w rows w1 w2. initialize_db_pool B s = (Inr u, s1) \<longrightarrow>
         db_pool s1 = Some pl \<longrightarrow> acquire B pl (world s1) = (Inr c, w) \<longrightarrow>
         fetch B c (''SELECT * FROM '' @ table @ '' LIMIT 10'') [] w = (Inr rows, w1) \<longrightarrow>
         release B pl c w1 = (Inr (), w2) \<longrightarrow>
         (\<exists>ds. fst (preview_table B table s) = Inr ds \<and> length ds = length rows
            \<and> (\<forall>i<length rows. \<forall>k v. (ds ! i) k = Some v
                 \<longleftrightarrow> (\<exists>pre post. rows ! i = pre @ (k, v) # post \<and> k \<notin> fst ` set post)))"
  proof (intro allI impI)
    fix u s1 pl c w rows w1 w2
    assume i: "initialize_db_pool B s = (Inr u, s1)"
      and p: "db_pool s1 = Some pl" and a: "acquire B pl (world s1) = (Inr c, w)"
      and f: "fetch B c (''SELECT * FROM '' @ table @ '' LIMIT 10'') [] w = (Inr rows, w1)"
      and r: "release B pl c w1 = (Inr (), w2)"
    have "fst (preview_table B table s) = Inr (map dict_of rows)"
      using fetch_result [OF p a f r, of "map dict_of"] by (simp add: preview_table_def i)
    with map_dict_of_rows [of rows]
    show "\<exists>ds. fst (preview_table B table s) = Inr ds \<and> length ds = length rows
            \<and> (\<forall>i<length rows. \<forall>k v. (ds ! i) k = Some v
                 \<longleftrightarrow> (\<exists>pre post. rows ! i = pre @ (k, v) # post \<and> k \<notin> fst ` set post))"
      by simp
  qed
  have 3: "statements (trace (snd (main_preview_table D cfg table s)))
     = statements (trace s) @
       (if \<exists>c w. connect D cfg (world s) = (Inr c, w)
        then [(''SELECT * FROM '' @ table @ '' LIMIT 10'', [])] else [])"
    by (simp only: main_preview_table_def main_fetch_statements)
  have 4: "\<forall>c w w1 rows w2 w3. connect D cfg (world s) = (Inr c, w) \<longrightarrow>
         cursor_execute D c (''SELECT * FROM '' @ table @ '' LIMIT 10'') w = (Inr (), w1) \<longrightarrow>
         fetchall D c w1 = (Inr rows, w2) \<longrightarrow> commit D c w2 = (Inr (), w3) \<longrightarrow>
         (\<exists>ds. fst (main_preview_table D cfg table s) = Inr ds \<and> length ds = length rows
            \<and> (\<forall>i<length rows. \<forall>k v. (ds ! i) k = Some v
                 \<longleftrightarrow> (\<exists>pre post. rows ! i = pre @ (k, v) # post \<and> k \<notin> fst ` set post)))"
  proof (intro allI impI)
    fix c w w1 rows w2 w3
    assume a: "connect D cfg (world s) = (Inr c, w)"
      and e: "cursor_execute D c (''SELECT * FROM '' @ table @ '' LIMIT 10'') w = (Inr (), w1)"
      and f: "fetchall D c w1 = (Inr rows, w2)" and k: "commit D c w2 = (Inr (), w3)"
    have "fst (main_preview_table D cfg table s) = Inr (map dict_of rows)"
      using main_fetch_result [OF a e f k] by (simp add: main_preview_table_def)
    with map_dict_of_rows [of rows]
    show "\<exists>ds. fst (main_preview_table D cfg table s) = Inr ds \<and> length ds = length rows
            \<and> (\<forall>i<length rows. \<forall>k v. (ds ! i) k = Some v
                 \<longleftrightarrow> (\<exists>pre post. rows ! i = pre @ (k, v) # post \<and> k \<notin> fst ` set post))"
      by simp
  qed
  from 1 2 3 4 show ?thesis by (intro conjI)
qed

text \<open>
  The theorem at an argument that is no table name: the text goes out with the argument
  inside, and the one row comes back as a mapping that takes \<open>x\<close> to 1 and has no \<open>y\<close>.
\<close>

theorem preview_table_query_witness:
  "statements (trace (snd (preview_table accepting_db ''users; DROP TABLE users; --'' start_state)))
     = [(''SELECT * FROM users; DROP TABLE users; -- LIMIT 10'', [])]
   \<and> (\<exists>d. fst (preview_table accepting_db ''users; DROP TABLE users; --'' start_state) = Inr [d]
          \<and> d ''x'' = Some (PgInt 1) \<and> d ''y'' = None)"
proof -
  have i: "initialize_db_pool accepting_db start_state
     = (Inr (), start_state\<lparr>db_pool := Some 1,
          trace := [CreatePool \<lparr>host = None, port = 5432, database = None, user = None,
                                 password = None\<rparr> (Some 1)],
          stdout := [''INFO: PostgreSQL Connection Pool initialized successfully.'']\<rparr>)"
    by (simp add: initialize_db_pool_def int_env_def accepting_db_def start_state_def)
  have a: "\<And>pl w. acquire accepting_db pl w = (Inr 7, w)"
    and rl: "\<And>pl c w. release accepting_db pl c w = (Inr (), w)"
    and ft: "\<And>c q args w. fetch accepting_db c q args w = (Inr [[(''x'', PgInt 1)]], w)"
    by (simp_all add: accepting_db_def)
  note t = preview_table_query [of accepting_db "''users; DROP TABLE users; --''" start_state]
  from t i a have st:
    "statements (trace (snd (preview_table accepting_db ''users; DROP TABLE users; --'' start_state)))
     = statements (trace start_state) @ [(''SELECT * FROM users; DROP TABLE users; -- LIMIT 10'', [])]"
    by simp
  from t i a rl ft obtain ds where
    r: "fst (preview_table accepting_db ''users; DROP TABLE users; --'' start_state) = Inr ds"
    and l: "length ds = Suc 0"
    and m: "\<And>k v. (ds ! 0) k = Some v
              \<longleftrightarrow> (\<exists>pre post. [(''x'', PgInt 1)] = pre @ (k, v) # post \<and> k \<notin> fst ` set post)"
    by fastforce
  from l obtain d where ds: "ds = [d]" by (cases ds) auto
  have x: "d ''x'' = Some (PgInt 1)"
    using m [of "''x''" "PgInt 1"] ds by (simp add: exI [of _ "[]"])
  have "\<And>v. d ''y'' \<noteq> Some v"
    using m [of "''y''"] ds by (auto simp: Cons_eq_append_conv)
  then have y: "d ''y'' = None" by (cases "d ''y''") auto
  from st r ds x y show ?thesis by (simp add: start_state_def)
qed

section \<open>The pool is created once\<close>














section \<open>A failed creation leaves no pool\<close>



section \<open>The server starts after the pool\<close>

lemma initialize_db_pool_serve:
  "filter is_serve (trace (snd (initialize_db_pool B s))) = filter is_serve (trace s)"
  by (auto simp: initialize_db_pool_def Let_def split: sum.splits prod.splits)

text \<open>
  C7. \<open>start_server\<close> initialises the pool before anything else. When the initialisation
  raises, \<open>start_server\<close> raises the same exception in the same state: the application is
  not built and the server does not serve. Whenever \<open>start_server\<close> has built the
  application or served, the initialisation had returned and \<open>db_pool\<close> holds a pool; the
  events of the server come after those of the initialisation, the application first.
\<close>

theorem start_server_fail_fast:
  "(\<forall>e s1. initialize_db_pool B s = (Inl e, s1) \<longrightarrow>
       start_server B s = (Inl e, s1)
       \<and> filter is_serve (trace s1) = filter is_serve (trace s))
   \<and> (filter is_serve (trace (snd (start_server B s))) \<noteq> filter is_serve (trace s) \<longrightarrow>
        (\<exists>u s1 pl. initialize_db_pool B s = (Inr u, s1) \<and> db_pool s1 = Some pl
           \<and> db_pool (snd (start_server B s)) = Some pl))
   \<and> (\<forall>u s1. initialize_db_pool B s = (Inr u, s1) \<longrightarrow>
        (\<exists>es. trace (snd (start_server B s)) = trace s1 @ es
           \<and> (es = [] \<or> (\<exists>p. es = [GetApp p]) \<or> (\<exists>p. es = [GetApp p, Serve p]))
           \<and> filter is_serve (trace s1) = filter is_serve (trace s)))"
proof -
  have 1: "\<forall>e s1. initialize_db_pool B s = (Inl e, s1) \<longrightarrow>
       start_server B s = (Inl e, s1)
       \<and> filter is_serve (trace s1) = filter is_serve (trace s)"
    using initialize_db_pool_serve [of B s] by (auto simp: start_server_def)
  have 2: "filter is_serve (trace (snd (start_server B s))) \<noteq> filter is_serve (trace s) \<longrightarrow>
        (\<exists>u s1 pl. initialize_db_pool B s = (Inr u, s1) \<and> db_pool s1 = Some pl
           \<and> db_pool (snd (start_server B s)) = Some pl)"
  proof (cases "initialize_db_pool B s")
    case (Pair r s1)
    show ?thesis
    proof (cases r)
      case (Inl e)
      with Pair 1 show ?thesis by auto
    next
      case (Inr u)
      with Pair initialize_db_pool_Inr(1) [of B s u s1] obtain pl where "db_pool s1 = Some pl"
        by auto
      moreover from this Pair Inr have "db_pool (snd (start_server B s)) = Some pl"
        by (auto simp: start_server_def Let_def split: sum.splits prod.splits)
      ultimately show ?thesis using Pair Inr by auto
    qed
  qed
  have 3: "\<forall>u s1. initialize_db_pool B s = (Inr u, s1) \<longrightarrow>
        (\<exists>es. trace (snd (start_server B s)) = trace s1 @ es
           \<and> (es = [] \<or> (\<exists>p. es = [GetApp p]) \<or> (\<exists>p. es = [GetApp p, Serve p]))
           \<and> filter is_serve (trace s1) = filter is_serve (trace s))"
    using initialize_db_pool_serve [of B s]
    by (auto simp: start_server_def Let_def split: sum.splits prod.splits)
  from 1 2 3 show ?thesis by blast
qed

text \<open>
  With a database that cannot be reached the server is never started; with the one that
  accepts everything the pool is created, then the application is built, then the server
  serves, on the default port.
\<close>

theorem start_server_fail_fast_witness:
  "start_server unreachable_db start_state
     = (Inl (LibraryError ''connection refused''),
        start_state\<lparr>trace := [CreatePool \<lparr>host = None, port = 5432, database = None,
                                             user = None, password = None\<rparr> None],
                     stdout := [''ERROR: Failed to connect to PostgreSQL: connection refused'']\<rparr>)
   \<and> trace (snd (start_server accepting_db start_state))
     = [CreatePool \<lparr>host = None, port = 5432, database = None, user = None, password = None\<rparr>
          (Some 1), GetApp 8080, Serve 8080]"
proof -
  have i: "initialize_db_pool unreachable_db start_state
     = (Inl (LibraryError ''connection refused''),
        start_state\<lparr>trace := [CreatePool \<lparr>host = None, port = 5432, database = None,
                                             user = None, password = None\<rparr> None],
                     stdout := [''ERROR: Failed to connect to PostgreSQL: connection refused'']\<rparr>)"
    by (simp add: initialize_db_pool_def int_env_def unreachable_db_def start_state_def)
  from start_server_fail_fast [of unreachable_db start_state] i
  have 1: "start_server unreachable_db start_state
     = (Inl (LibraryError ''connection refused''),
        start_state\<lparr>trace := [CreatePool \<lparr>host = None, port = 5432, database = None,
                                             user = None, password = None\<rparr> None],
                     stdout := [''ERROR: Failed to connect to PostgreSQL: connection refused'']\<rparr>)"
    by simp
  have 2: "trace (snd (start_server accepting_db start_state))
     = [CreatePool \<lparr>host = None, port = 5432, database = None, user = None, password = None\<rparr>
          (Some 1), GetApp 8080, Serve 8080]"
    by (simp add: start_server_def initialize_db_pool_def int_env_def accepting_db_def
        start_state_def Let_def lib_result_def)
  from 1 2 show ?thesis by simp
qed

section \<open>The bearer token\<close>

text \<open>
  C8. \<open>check_auth\<close> raises the \<open>HTTPException\<close> with status 500 whenever \<open>MCP_API_KEY\<close> is not
  set or is empty; otherwise it raises the one with status 401 and the header
  \<open>WWW-Authenticate: Bearer\<close> whenever the presented token differs from the key; it returns
  \<open>True\<close> exactly when the token equals the key, which is then not empty, and it never
  returns anything else. A request reaches the transport exactly when \<open>HTTPBearer\<close> yields a
  token and that token equals the key.
\<close>

theorem check_auth_outcomes:
  "(getenv B ''MCP_API_KEY'' = None \<or> getenv B ''MCP_API_KEY'' = Some [] \<longrightarrow>
      fst (check_auth B credentials s)
        = Inl (HTTPException 500 ''Server Misconfiguration: Authentication key missing.'' []))
   \<and> (\<forall>k. getenv B ''MCP_API_KEY'' = Some k \<longrightarrow> k \<noteq> [] \<longrightarrow> credentials \<noteq> k \<longrightarrow>
        check_auth B credentials s
          = (Inl (HTTPException 401 ''Unauthorized access. Invalid MCP_API_KEY.''
                    [(''WWW-Authenticate'', ''Bearer'')]), s))
   \<and> (fst (check_auth B credentials s) = Inr True
        \<longleftrightarrow> getenv B ''MCP_API_KEY'' = Some credentials \<and> credentials \<noteq> [])
   \<and> (\<forall>ok. fst (check_auth B credentials s) = Inr ok \<longrightarrow>
        check_auth B credentials s = (Inr True, s))
   \<and> trace (snd (protected_mcp_endpoint B authorization request s))
       = trace s @
         (if \<exists>c. http_bearer B authorization = Inr c \<and> getenv B ''MCP_API_KEY'' = Some c \<and> c \<noteq> []
          then [HandleRequest request] else [])"
proof -
  have 1: "getenv B ''MCP_API_KEY'' = None \<or> getenv B ''MCP_API_KEY'' = Some [] \<longrightarrow>
      fst (check_auth B credentials s)
        = Inl (HTTPException 500 ''Server Misconfiguration: Authentication key missing.'' [])"
    by (auto simp: check_auth_def Let_def)
  have 2: "\<forall>k. getenv B ''MCP_API_KEY'' = Some k \<longrightarrow> k \<noteq> [] \<longrightarrow> credentials \<noteq> k \<longrightarrow>
        check_auth B credentials s
          = (Inl (HTTPException 401 ''Unauthorized access. Invalid MCP_API_KEY.''
                    [(''WWW-Authenticate'', ''Bearer'')]), s)"
    by (auto simp: check_auth_def Let_def)
  have 3: "fst (check_auth B credentials s) = Inr True
        \<longleftrightarrow> getenv B ''MCP_API_KEY'' = Some credentials \<and> credentials \<noteq> []"
    by (auto simp: check_auth_def Let_def)
  have 4: "\<forall>ok. fst (check_auth B credentials s) = Inr ok \<longrightarrow>
        check_auth B credentials s = (Inr True, s)"
    by (auto simp: check_auth_def Let_def split: if_splits)
  have 5: "trace (snd (protected_mcp_endpoint B authorization request s))
       = trace s @
         (if \<exists>c. http_bearer B authorization = Inr c \<and> getenv B ''MCP_API_KEY'' = Some c \<and> c \<noteq> []
          then [HandleRequest request] else [])"
    by (auto simp: protected_mcp_endpoint_def check_auth_def Let_def
        split: sum.splits prod.splits if_splits)
  from 1 2 3 4 5 show ?thesis by blast
qed

text \<open>
  No key configured; a wrong token; the right token; and the three requests with a wrong
  token, without a token and with the right one.
\<close>

theorem check_auth_outcomes_witness:
  "fst (check_auth unreachable_db ''s3cret'' start_state)
     = Inl (HTTPException 500 ''Server Misconfiguration: Authentication key missing.'' [])
   \<and> check_auth accepting_db ''guess'' start_state
     = (Inl (HTTPException 401 ''Unauthorized access. Invalid MCP_API_KEY.''
               [(''WWW-Authenticate'', ''Bearer'')]), start_state)
   \<and> fst (check_auth accepting_db ''s3cret'' start_state) = Inr True
   \<and> trace (snd (protected_mcp_endpoint accepting_db (Some ''guess'') ''{}'' start_state)) = []
   \<and> trace (snd (protected_mcp_endpoint accepting_db None ''{}'' start_state)) = []
   \<and> trace (snd (protected_mcp_endpoint accepting_db (Some ''s3cret'') ''{}'' start_state))
     = [HandleRequest ''{}'']"
proof -
  have u: "getenv unreachable_db ''MCP_API_KEY'' = None"
    by (simp add: unreachable_db_def)
  have k: "getenv accepting_db ''MCP_API_KEY'' = Some ''s3cret''"
    by (simp add: accepting_db_def)
  have hb: "\<And>v. http_bearer accepting_db (Some v) = Inr v"
    "http_bearer accepting_db None = Inl (HTTPException 403 ''Not authenticated'' [])"
    by (simp_all add: accepting_db_def)
  from check_auth_outcomes [of unreachable_db "''s3cret''" start_state] u
  have 1: "fst (check_auth unreachable_db ''s3cret'' start_state)
     = Inl (HTTPException 500 ''Server Misconfiguration: Authentication key missing.'' [])"
    by simp
  from check_auth_outcomes [of accepting_db "''guess''" start_state] k
  have 2: "check_auth accepting_db ''guess'' start_state
     = (Inl (HTTPException 401 ''Unauthorized access. Invalid MCP_API_KEY.''
               [(''WWW-Authenticate'', ''Bearer'')]), start_state)"
    by simp
  from check_auth_outcomes [of accepting_db "''s3cret''" start_state] k
  have 3: "fst (check_auth accepting_db ''s3cret'' start_state) = Inr True"
    by simp
  from check_auth_outcomes [where B = accepting_db and s = start_state
      and authorization = "Some ''guess''" and request = "''{}''"] k hb
  have 4: "trace (snd (protected_mcp_endpoint accepting_db (Some ''guess'') ''{}'' start_state)) = []"
    by (simp add: start_state_def)
  from check_auth_outcomes [where B = accepting_db and s = start_state
      and authorization = None and request = "''{}''"] k hb
  have 5: "trace (snd (protected_mcp_endpoint accepting_db None ''{}'' start_state)) = []"
    by (simp add: start_state_def)
  from check_auth_outcomes [where B = accepting_db and s = start_state
      and authorization = "Some ''s3cret''" and request = "''{}''"] k hb
  have 6: "trace (snd (protected_mcp_endpoint accepting_db (Some ''s3cret'') ''{}'' start_state))
     = [HandleRequest ''{}'']"
    by (simp add: start_state_def)
  from 1 2 3 4 5 6 show ?thesis by simp
qed

end
